theory Spec2Isabelle
  imports Complex_Main "HOL-Library.AList"
begin

section \<open>Python errors\<close>

text \<open>
  Every \<^verbatim>\<open>raise\<close> of the modelled code is a value of this type; a function that can
  raise returns \<open>py_error + 'a\<close> with \<open>Inl\<close> for the exception.  The string is the
  message of the source where it has one, or the name looked up.
\<close>

datatype py_error =
    ValueError string
  | RuntimeError string
  | AttributeError string
  | KeyError string
  | NameError string
  | ValidationError string
  | NotImplementedError

section \<open>Anthropic streaming chunks (\<^verbatim>\<open>mirascope/core/anthropic/call_response_chunk.py\<close>)\<close>

subsection \<open>The event types of the Anthropic SDK\<close>

text \<open>
  \<^verbatim>\<open>MessageStreamEvent\<close> is the SDK's union of six event classes, each with a constant
  \<^verbatim>\<open>type\<close> tag.  \<^verbatim>\<open>MessageStartEvent\<close> is the SDK's alias of
  \<^verbatim>\<open>RawMessageStartEvent\<close>, so both \<^verbatim>\<open>isinstance\<close> tests of the source select the
  same constructor.  \<^verbatim>\<open>stop_reason\<close> is an optional literal of four strings;
  \<^verbatim>\<open>Message.usage\<close> and \<^verbatim>\<open>RawMessageDeltaEvent.usage\<close> are required fields.
\<close>

datatype stop_reason = EndTurn | MaxTokens | StopSequence | ToolUse

fun str_stop_reason :: "stop_reason \<Rightarrow> string" where
  "str_stop_reason EndTurn = ''end_turn''"
| "str_stop_reason MaxTokens = ''max_tokens''"
| "str_stop_reason StopSequence = ''stop_sequence''"
| "str_stop_reason ToolUse = ''tool_use''"

record Usage =
  usage_input_tokens :: nat
  usage_output_tokens :: nat

record MessageDeltaUsage =
  delta_usage_output_tokens :: nat

datatype content_block =
    TextBlock string
  | ToolUseBlock string string string

record Message =
  message_id :: string
  message_model :: string
  message_content :: "content_block list"
  message_stop_reason :: "stop_reason option"
  message_usage :: Usage

datatype content_block_delta =
    TextDelta string
  | InputJSONDelta string

record MessageDelta =
  delta_stop_reason :: "stop_reason option"
  delta_stop_sequence :: "string option"

datatype MessageStreamEvent =
    RawMessageStartEvent Message
  | RawMessageDeltaEvent MessageDelta MessageDeltaUsage
  | RawMessageStopEvent
  | RawContentBlockStartEvent nat content_block
  | RawContentBlockDeltaEvent nat content_block_delta
  | RawContentBlockStopEvent nat

text \<open>Attribute reads.  Reading an attribute that the object's class lacks raises
  \<^verbatim>\<open>AttributeError\<close>.\<close>

fun event_type :: "MessageStreamEvent \<Rightarrow> string" where
  "event_type (RawMessageStartEvent m) = ''message_start''"
| "event_type (RawMessageDeltaEvent d u) = ''message_delta''"
| "event_type RawMessageStopEvent = ''message_stop''"
| "event_type (RawContentBlockStartEvent i b) = ''content_block_start''"
| "event_type (RawContentBlockDeltaEvent i d) = ''content_block_delta''"
| "event_type (RawContentBlockStopEvent i) = ''content_block_stop''"

datatype delta_object =
    OfContentBlock content_block_delta
  | OfMessage MessageDelta

fun event_delta :: "MessageStreamEvent \<Rightarrow> py_error + delta_object" where
  "event_delta (RawContentBlockDeltaEvent i d) = Inr (OfContentBlock d)"
| "event_delta (RawMessageDeltaEvent d u) = Inr (OfMessage d)"
| "event_delta e = Inl (AttributeError ''delta'')"

fun delta_type :: "delta_object \<Rightarrow> py_error + string" where
  "delta_type (OfContentBlock (TextDelta t)) = Inr ''text_delta''"
| "delta_type (OfContentBlock (InputJSONDelta j)) = Inr ''input_json_delta''"
| "delta_type (OfMessage d) = Inl (AttributeError ''type'')"

fun delta_text :: "delta_object \<Rightarrow> py_error + string" where
  "delta_text (OfContentBlock (TextDelta t)) = Inr t"
| "delta_text d = Inl (AttributeError ''text'')"

subsection \<open>The properties of \<^verbatim>\<open>AnthropicCallResponseChunk\<close>\<close>

text \<open>\<^verbatim>\<open>content\<close>: the conditional expression; \<^verbatim>\<open>and\<close> evaluates its right operand only
  when the left one holds, and \<^verbatim>\<open>self.chunk.delta.text\<close> is read only when both hold.\<close>

definition AnthropicCallResponseChunk_content :: "MessageStreamEvent \<Rightarrow> py_error + string" where
  "AnthropicCallResponseChunk_content chunk =
     (if event_type chunk = ''content_block_delta'' then
        (case event_delta chunk of
           Inl e \<Rightarrow> Inl e
         | Inr d \<Rightarrow>
             (case delta_type d of
                Inl e \<Rightarrow> Inl e
              | Inr ty \<Rightarrow> if ty = ''text_delta'' then delta_text d else Inr ''''))
      else Inr '''')"

text \<open>\<^verbatim>\<open>finish_reasons\<close>: only a message-start event is inspected; \<^verbatim>\<open>None\<close> is the
  only falsy value of the optional literal.\<close>

fun AnthropicCallResponseChunk_finish_reasons :: "MessageStreamEvent \<Rightarrow> string list option" where
  "AnthropicCallResponseChunk_finish_reasons (RawMessageStartEvent m) =
     (case message_stop_reason m of
        Some r \<Rightarrow> Some [str_stop_reason r]
      | None \<Rightarrow> None)"
| "AnthropicCallResponseChunk_finish_reasons e = None"

fun AnthropicCallResponseChunk_model :: "MessageStreamEvent \<Rightarrow> string option" where
  "AnthropicCallResponseChunk_model (RawMessageStartEvent m) = Some (message_model m)"
| "AnthropicCallResponseChunk_model e = None"

fun AnthropicCallResponseChunk_id :: "MessageStreamEvent \<Rightarrow> string option" where
  "AnthropicCallResponseChunk_id (RawMessageStartEvent m) = Some (message_id m)"
| "AnthropicCallResponseChunk_id e = None"

datatype usage_object =
    OfUsage Usage
  | OfMessageDeltaUsage MessageDeltaUsage

fun AnthropicCallResponseChunk_usage :: "MessageStreamEvent \<Rightarrow> usage_object option" where
  "AnthropicCallResponseChunk_usage (RawMessageStartEvent m) = Some (OfUsage (message_usage m))"
| "AnthropicCallResponseChunk_usage (RawMessageDeltaEvent d u) = Some (OfMessageDeltaUsage u)"
| "AnthropicCallResponseChunk_usage e = None"

text \<open>\<^verbatim>\<open>input_tokens\<close>: \<^verbatim>\<open>hasattr(usage, "input_tokens")\<close> holds for \<^verbatim>\<open>Usage\<close> only.\<close>

definition AnthropicCallResponseChunk_input_tokens :: "MessageStreamEvent \<Rightarrow> nat option" where
  "AnthropicCallResponseChunk_input_tokens chunk =
     (case AnthropicCallResponseChunk_usage chunk of
        Some (OfUsage u) \<Rightarrow> Some (usage_input_tokens u)
      | _ \<Rightarrow> None)"

definition AnthropicCallResponseChunk_output_tokens :: "MessageStreamEvent \<Rightarrow> nat option" where
  "AnthropicCallResponseChunk_output_tokens chunk =
     (case AnthropicCallResponseChunk_usage chunk of
        Some (OfUsage u) \<Rightarrow> Some (usage_output_tokens u)
      | Some (OfMessageDeltaUsage u) \<Rightarrow> Some (delta_usage_output_tokens u)
      | None \<Rightarrow> None)"

section \<open>Tools (\<^verbatim>\<open>mirascope/base/tools.py\<close>)\<close>

subsection \<open>Python values, strings and dictionaries\<close>

datatype py_value =
    PyNone
  | PyBool bool
  | PyInt int
  | PyStr string
  | PyObject string

datatype json =
    JNull
  | JBool bool
  | JInt int
  | JStr string
  | JArr "json list"
  | JObj "(string \<times> json) list"

text \<open>A \<^verbatim>\<open>dict\<close> with string keys is an association list in insertion order;
  \<^verbatim>\<open>d[k] = v\<close> is \<^const>\<open>AList.update\<close>: it replaces the value of a key already
  present where it stands and appends a new key at the end.\<close>

type_synonym 'v py_dict = "(string \<times> 'v) list"

text \<open>Truthiness of an optional string: \<^verbatim>\<open>None\<close> and the empty string are falsy.\<close>

fun truthy :: "string option \<Rightarrow> bool" where
  "truthy None = False"
| "truthy (Some s) = (s \<noteq> [])"

definition startswith :: "string \<Rightarrow> string \<Rightarrow> bool" where
  "startswith s p = (take (length p) s = p)"

text \<open>\<^verbatim>\<open>str.split(sep)\<close> for a separator of one character, and \<^verbatim>\<open>str.title()\<close>
  on ASCII letters: a letter after a letter is lowered, any other letter is raised.\<close>

fun split_acc :: "char \<Rightarrow> string \<Rightarrow> string \<Rightarrow> string list" where
  "split_acc sep word [] = [word]"
| "split_acc sep word (c # cs) =
     (if c = sep then word # split_acc sep [] cs else split_acc sep (word @ [c]) cs)"

definition str_split :: "string \<Rightarrow> char \<Rightarrow> string list" where
  "str_split s sep = split_acc sep [] s"

definition is_ascii_lower :: "char \<Rightarrow> bool" where
  "is_ascii_lower c = (97 \<le> (of_char c :: nat) \<and> (of_char c :: nat) \<le> 122)"

definition is_ascii_upper :: "char \<Rightarrow> bool" where
  "is_ascii_upper c = (65 \<le> (of_char c :: nat) \<and> (of_char c :: nat) \<le> 90)"

definition ascii_to_upper :: "char \<Rightarrow> char" where
  "ascii_to_upper c = (if is_ascii_lower c then char_of ((of_char c :: nat) - 32) else c)"

definition ascii_to_lower :: "char \<Rightarrow> char" where
  "ascii_to_lower c = (if is_ascii_upper c then char_of ((of_char c :: nat) + 32) else c)"

fun title_from :: "bool \<Rightarrow> string \<Rightarrow> string" where
  "title_from previous_cased [] = []"
| "title_from previous_cased (c # cs) =
     (if is_ascii_lower c \<or> is_ascii_upper c then
        (if previous_cased then ascii_to_lower c else ascii_to_upper c) # title_from True cs
      else c # title_from False cs)"

definition str_title :: "string \<Rightarrow> string" where
  "str_title s = title_from False s"

subsection \<open>A function as \<^verbatim>\<open>inspect\<close> and \<^verbatim>\<open>docstring_parser\<close> present it\<close>

text \<open>A Python type is identified with its name.  \<^verbatim>\<open>Parameter.empty\<close> is \<open>None\<close>, both
  for a missing annotation and for a missing default.\<close>

type_synonym annotation = string

record Parameter =
  parameter_name :: string
  parameter_annotation :: "annotation option"
  parameter_default :: "py_value option"

record DocstringParam =
  docstring_param_arg_name :: string
  docstring_param_description :: "string option"

record Docstring =
  docstring_short_description :: "string option"
  docstring_long_description :: "string option"
  docstring_params :: "DocstringParam list"

record Callable =
  callable_name :: string
  callable_doc :: "string option"
  callable_parameters :: "Parameter list"
  callable_return_annotation :: "annotation option"

text \<open>\<^verbatim>\<open>fn.__annotations__\<close>: the annotated parameters in the order of the signature, then
  the return annotation.\<close>

definition callable_annotations :: "Callable \<Rightarrow> annotation py_dict" where
  "callable_annotations fn =
     List.map_filter
       (\<lambda>p. case parameter_annotation p of
               None \<Rightarrow> None
             | Some a \<Rightarrow> Some (parameter_name p, a))
       (callable_parameters fn)
     @ (case callable_return_annotation fn of None \<Rightarrow> [] | Some r \<Rightarrow> [(''return'', r)])"

text \<open>\<^verbatim>\<open>typing.get_type_hints(fn)\<close> evaluates every annotation of the function in the
  function's namespace, before it returns the dictionary of the types: an annotation
  that names nothing there raises \<^verbatim>\<open>NameError\<close>.  The namespace maps a name to the type it
  denotes.  (The names of the parameters of a function are distinct and none is
  \<^verbatim>\<open>return\<close>, so the dictionary has one entry per annotation.)\<close>

fun evaluate_annotations ::
  "(string \<rightharpoonup> annotation) \<Rightarrow> annotation py_dict \<Rightarrow> py_error + annotation py_dict" where
  "evaluate_annotations namespace [] = Inr []"
| "evaluate_annotations namespace ((n, a) # rest) =
     (case namespace a of
        None \<Rightarrow> Inl (NameError a)
      | Some t \<Rightarrow>
          (case evaluate_annotations namespace rest of
             Inl e \<Rightarrow> Inl e
           | Inr hints \<Rightarrow> Inr ((n, t) # hints)))"

definition typing_get_type_hints ::
  "(string \<rightharpoonup> annotation) \<Rightarrow> Callable \<Rightarrow> py_error + (string \<rightharpoonup> annotation)" where
  "typing_get_type_hints namespace fn =
     (case evaluate_annotations namespace (callable_annotations fn) of
        Inl e \<Rightarrow> Inl e
      | Inr hints \<Rightarrow> Inr (map_of hints))"

subsection \<open>Pydantic fields and tool classes\<close>

text \<open>\<^verbatim>\<open>FieldInfo\<close>: \<open>None\<close> as default is pydantic's undefined default (a required
  field).  A tool class is what \<^verbatim>\<open>create_model\<close> builds: its name, its docstring, the
  function attached by \<^verbatim>\<open>tool_fn\<close>, and its fields in definition order.\<close>

record FieldInfo =
  field_annotation :: annotation
  field_default :: "py_value option"
  field_description :: "string option"
  field_alias :: "string option"
  field_validation_alias :: "string option"
  field_serialization_alias :: "string option"

record tool_class =
  class_name :: string
  class_doc :: "string option"
  class_fn :: "Callable option"
  class_fields :: "(annotation \<times> FieldInfo) py_dict"

record tool_instance =
  instance_class :: tool_class
  instance_values :: "py_value py_dict"

text \<open>\<^verbatim>\<open>tool_fn(fn)(cls)\<close>: sets the \<^verbatim>\<open>fn\<close> property on the class and returns the class.
  The source sets the property on the class object it is given (\<^verbatim>\<open>setattr\<close>), so the
  class that the caller passed is itself changed, and every class derived from it reads
  the function attached last.  Classes are values here: the model returns the changed
  class and does not follow the sharing; no statement below reads \<open>class_fn\<close>.\<close>

definition tool_fn :: "Callable \<Rightarrow> tool_class \<Rightarrow> tool_class" where
  "tool_fn fn cls = cls\<lparr>class_fn := Some fn\<rparr>"

text \<open>\<^verbatim>\<open>BaseTool.fn\<close>: raises unless \<^verbatim>\<open>tool_fn\<close> replaced the property.\<close>

definition BaseTool_fn :: "tool_instance \<Rightarrow> py_error + Callable" where
  "BaseTool_fn self =
     (case class_fn (instance_class self) of
        None \<Rightarrow> Inl (RuntimeError ''Tool does not have an attached function.'')
      | Some f \<Rightarrow> Inr f)"

text \<open>\<^verbatim>\<open>pydantic.create_model(name, __base__=base, __doc__=doc, **field_definitions)\<close>:
  a subclass of the base with the base's fields followed by the new ones (a field of
  the base with the same name is replaced); an empty \<^verbatim>\<open>__doc__\<close> is not set.  Pydantic
  refuses some definitions: of these the model has the field name with a leading
  underscore, which raises \<^verbatim>\<open>NameError\<close>.  What else pydantic refuses (a type it has no
  schema for, say) is not modelled; \<^verbatim>\<open>convert_function_to_tool\<close> below takes
  \<^verbatim>\<open>create_model\<close> as a parameter, and its general statements hold for whatever it
  returns or raises.\<close>

definition pydantic_create_model ::
  "string \<Rightarrow> tool_class \<Rightarrow> string \<Rightarrow> (annotation \<times> FieldInfo) py_dict \<Rightarrow> py_error + tool_class" where
  "pydantic_create_model model_name base doc field_definitions =
     (case filter (\<lambda>k. startswith k ''_'') (map fst field_definitions) of
        k # ks \<Rightarrow> Inl (NameError k)
      | [] \<Rightarrow>
          Inr \<lparr> class_name = model_name,
                class_doc = (if doc = [] then None else Some doc),
                class_fn = class_fn base,
                class_fields =
                  fold (\<lambda>(k, v). AList.update k v) field_definitions (class_fields base) \<rparr>)"

text \<open>\<^verbatim>\<open>BaseModel.model_dump(by_alias=..., exclude=...)\<close>: the values by field name, or by
  serialization alias (then alias) when \<^verbatim>\<open>by_alias\<close> is set; pydantic's default for
  \<^verbatim>\<open>by_alias\<close> is \<^verbatim>\<open>False\<close>.\<close>

definition dump_key :: "bool \<Rightarrow> tool_class \<Rightarrow> string \<Rightarrow> string" where
  "dump_key by_alias cls field_name =
     (if by_alias then
        (case map_of (class_fields cls) field_name of
           None \<Rightarrow> field_name
         | Some (t, info) \<Rightarrow>
             (case field_serialization_alias info of
                Some a \<Rightarrow> a
              | None \<Rightarrow> (case field_alias info of Some a \<Rightarrow> a | None \<Rightarrow> field_name)))
      else field_name)"

definition model_dump :: "bool \<Rightarrow> string list \<Rightarrow> tool_instance \<Rightarrow> py_value py_dict" where
  "model_dump by_alias exclude self =
     [(dump_key by_alias (instance_class self) k, v).
        (k, v) \<leftarrow> instance_values self, k \<notin> set exclude]"

text \<open>\<^verbatim>\<open>BaseModel.model_validate(data)\<close>, types apart: each field is read under its
  validation alias (then alias, then name); a key that is absent gives the default,
  and fails for a required field.\<close>

definition validation_key :: "string \<Rightarrow> FieldInfo \<Rightarrow> string" where
  "validation_key field_name info =
     (case field_validation_alias info of
        Some a \<Rightarrow> a
      | None \<Rightarrow> (case field_alias info of Some a \<Rightarrow> a | None \<Rightarrow> field_name))"

fun validate_fields ::
  "(annotation \<times> FieldInfo) py_dict \<Rightarrow> py_value py_dict \<Rightarrow> py_error + py_value py_dict" where
  "validate_fields [] data = Inr []"
| "validate_fields ((field_name, t, info) # rest) data =
     (case (case map_of data (validation_key field_name info) of
              Some v \<Rightarrow> Inr v
            | None \<Rightarrow>
                (case field_default info of
                   Some v \<Rightarrow> Inr v
                 | None \<Rightarrow> Inl (ValidationError (validation_key field_name info)))) of
        Inl e \<Rightarrow> Inl e
      | Inr v \<Rightarrow>
          (case validate_fields rest data of
             Inl e \<Rightarrow> Inl e
           | Inr vs \<Rightarrow> Inr ((field_name, v) # vs)))"

definition model_validate :: "tool_class \<Rightarrow> py_value py_dict \<Rightarrow> py_error + tool_instance" where
  "model_validate cls data =
     (case validate_fields (class_fields cls) data of
        Inl e \<Rightarrow> Inl e
      | Inr vs \<Rightarrow> Inr \<lparr> instance_class = cls, instance_values = vs \<rparr>)"

subsection \<open>\<^verbatim>\<open>BaseTool\<close>\<close>

text \<open>\<^verbatim>\<open>args\<close>: \<^verbatim>\<open>self.model_dump(exclude={"tool_call"})\<close>; \<^verbatim>\<open>by_alias\<close> is not passed.\<close>

definition BaseTool_args :: "tool_instance \<Rightarrow> py_value py_dict" where
  "BaseTool_args self = model_dump False [''tool_call''] self"

text \<open>\<^verbatim>\<open>from_tool_call\<close>: abstract in the base class.\<close>

definition BaseTool_from_tool_call :: "tool_class \<Rightarrow> 'tool_call \<Rightarrow> py_error + tool_instance" where
  "BaseTool_from_tool_call cls tool_call = Inl NotImplementedError"

text \<open>The dictionary that \<^verbatim>\<open>cls.model_json_schema()\<close> returns.  Pydantic always emits
  \<^verbatim>\<open>title\<close> and \<^verbatim>\<open>properties\<close> for a model class; \<^verbatim>\<open>description\<close>, \<^verbatim>\<open>required\<close> and
  \<^verbatim>\<open>$defs\<close> are keys that may be absent.\<close>

record model_json_schema =
  schema_title :: string
  schema_description :: "string option"
  schema_properties :: "json py_dict py_dict"
  schema_required :: "string list option"
  schema_defs :: "json py_dict option"

record tool_parameters =
  parameters_type :: string
  parameters_properties :: "json py_dict py_dict"
  parameters_required :: "string list"
  parameters_defs :: "json py_dict"

record function_schema =
  function_name :: string
  function_description :: string
  function_parameters :: "tool_parameters option"

text \<open>\<^verbatim>\<open>tool_schema\<close>, from the model's JSON schema on.\<close>

definition BaseTool_tool_schema :: "model_json_schema \<Rightarrow> py_error + function_schema" where
  "BaseTool_tool_schema model_schema =
     (case schema_description model_schema of
        None \<Rightarrow> Inl (ValueError ''Tool must have a docstring description.'')
      | Some description \<Rightarrow>
          Inr \<lparr> function_name = schema_title model_schema,
                function_description = description,
                function_parameters =
                  (if schema_properties model_schema \<noteq> [] then
                     Some \<lparr> parameters_type = ''object'',
                            parameters_properties =
                              [(prop, [(k, v). (k, v) \<leftarrow> prop_schema]).
                                 (prop, prop_schema) \<leftarrow> schema_properties model_schema,
                                 prop \<noteq> ''tool_call''],
                            parameters_required =
                              (case schema_required model_schema of
                                 Some required \<Rightarrow> [prop. prop \<leftarrow> required, prop \<noteq> ''tool_call'']
                               | None \<Rightarrow> []),
                            parameters_defs =
                              (case schema_defs model_schema of
                                 Some defs \<Rightarrow>
                                   [(k, v). (k, v) \<leftarrow> defs,
                                      k \<noteq> ''ChatCompletionMessageToolCall'' \<and> k \<noteq> ''Function'']
                               | None \<Rightarrow> []) \<rparr>
                   else None) \<rparr>)"

subsection \<open>\<^verbatim>\<open>convert_function_to_tool\<close>\<close>

definition name_mismatch_message :: "string \<Rightarrow> string \<Rightarrow> string" where
  "name_mismatch_message parameter_name' arg_name =
     ''Function parameter name '' @ parameter_name' @
     '' does not match docstring parameter name '' @ arg_name @
     ''. Make sure that the parameter names match exactly.''"

text \<open>The documentation of the parameter at index \<open>i\<close> of the signature: the
  docstring's entry at the same index, when there is one.\<close>

definition docstring_description_at ::
  "Docstring \<Rightarrow> nat \<Rightarrow> Parameter \<Rightarrow> py_error + string option" where
  "docstring_description_at docstring i parameter =
     (if i < length (docstring_params docstring) then
        (let docstring_param = docstring_params docstring ! i in
           if docstring_param_arg_name docstring_param \<noteq> parameter_name parameter then
             Inl (ValueError (name_mismatch_message (parameter_name parameter)
                                (docstring_param_arg_name docstring_param)))
           else if \<not> truthy (docstring_param_description docstring_param) then
             Inl (ValueError ''All parameters must have a description.'')
           else Inr (docstring_param_description docstring_param))
      else Inr None)"

text \<open>The body of the loop for a parameter that is not skipped: the entry it stores in
  \<^verbatim>\<open>field_definitions\<close>, or the error it raises.\<close>

definition field_definition ::
  "Docstring \<Rightarrow> (string \<rightharpoonup> annotation) \<Rightarrow> nat \<Rightarrow> Parameter \<Rightarrow>
     py_error + (string \<times> annotation \<times> FieldInfo)" where
  "field_definition docstring hints i parameter =
     (case parameter_annotation parameter of
        None \<Rightarrow> Inl (ValueError ''All parameters must have a type annotation.'')
      | Some a \<Rightarrow>
          (case docstring_description_at docstring i parameter of
             Inl e \<Rightarrow> Inl e
           | Inr docstring_description \<Rightarrow>
               (case hints (parameter_name parameter) of
                  None \<Rightarrow> Inl (KeyError (parameter_name parameter))
                | Some hint \<Rightarrow>
                    (let field_info =
                           \<lparr> field_annotation = hint,
                             field_default = parameter_default parameter,
                             field_description =
                               (if truthy docstring_description then docstring_description
                                else None),
                             field_alias = None,
                             field_validation_alias = None,
                             field_serialization_alias = None \<rparr>
                     in if startswith (parameter_name parameter) ''model_'' then
                          Inr (''aliased_'' @ parameter_name parameter,
                               hint,
                               field_info\<lparr> field_alias := Some (parameter_name parameter),
                                           field_validation_alias := Some (parameter_name parameter),
                                           field_serialization_alias := Some (parameter_name parameter) \<rparr>)
                        else Inr (parameter_name parameter, hint, field_info)))))"

text \<open>The loop over \<^verbatim>\<open>enumerate(signature(fn).parameters.values())\<close>: the index counts
  every parameter of the signature, the skipped ones too.\<close>

fun collect_field_definitions ::
  "Docstring \<Rightarrow> (string \<rightharpoonup> annotation) \<Rightarrow> (nat \<times> Parameter) list \<Rightarrow>
     (annotation \<times> FieldInfo) py_dict \<Rightarrow> py_error + (annotation \<times> FieldInfo) py_dict" where
  "collect_field_definitions docstring hints [] field_definitions = Inr field_definitions"
| "collect_field_definitions docstring hints ((i, parameter) # rest) field_definitions =
     (if parameter_name parameter = ''self'' \<or> parameter_name parameter = ''cls'' then
        collect_field_definitions docstring hints rest field_definitions
      else
        (case field_definition docstring hints i parameter of
           Inl e \<Rightarrow> Inl e
         | Inr (param_name, entry) \<Rightarrow>
             collect_field_definitions docstring hints rest
               (AList.update param_name entry field_definitions)))"

definition tool_doc :: "Docstring \<Rightarrow> string" where
  "tool_doc docstring =
     (let doc = (if truthy (docstring_short_description docstring)
                 then the (docstring_short_description docstring) else [])
      in if truthy (docstring_long_description docstring)
         then doc @ [CHR 0x0A, CHR 0x0A] @ the (docstring_long_description docstring)
         else doc)"

text \<open>\<^verbatim>\<open>parse\<close> (\<^verbatim>\<open>docstring_parser.parse\<close>), \<^verbatim>\<open>get_type_hints\<close> (\<^verbatim>\<open>typing.get_type_hints\<close>) and
  \<^verbatim>\<open>create_model\<close> (\<^verbatim>\<open>pydantic.create_model\<close>) are library functions and parameters of the
  model; each may raise, and what it raises leaves \<^verbatim>\<open>convert_function_to_tool\<close>
  unchanged.  They are called in the order of the source: the docstring is parsed, the
  type hints are evaluated before the loop, the class is created after it.\<close>

definition convert_function_to_tool ::
  "(string \<Rightarrow> py_error + Docstring) \<Rightarrow>
   (Callable \<Rightarrow> py_error + (string \<rightharpoonup> annotation)) \<Rightarrow>
   (string \<Rightarrow> tool_class \<Rightarrow> string \<Rightarrow> (annotation \<times> FieldInfo) py_dict \<Rightarrow> py_error + tool_class) \<Rightarrow>
   Callable \<Rightarrow> tool_class \<Rightarrow> py_error + tool_class" where
  "convert_function_to_tool parse get_type_hints create_model fn base =
     (if \<not> truthy (callable_doc fn) then Inl (ValueError ''Function must have a docstring.'')
      else
        (case parse (the (callable_doc fn)) of
           Inl e \<Rightarrow> Inl e
         | Inr docstring \<Rightarrow>
             (case get_type_hints fn of
                Inl e \<Rightarrow> Inl e
              | Inr hints \<Rightarrow>
                  (case collect_field_definitions docstring hints
                          (enumerate 0 (callable_parameters fn)) [] of
                     Inl e \<Rightarrow> Inl e
                   | Inr field_definitions \<Rightarrow>
                       create_model
                         (concat (map str_title (str_split (callable_name fn) CHR ''_'')))
                         (tool_fn fn base)
                         (tool_doc docstring)
                         field_definitions))))"

subsection \<open>Tool calls\<close>

text \<open>Modelled from the spec: a provider's tool call, missing from the sources.  The
  spec: a tool call a provider emits is routed through \<^verbatim>\<open>from_tool_call\<close> on the matching
  tool type to produce an instantiated tool with the call's argument values, tied to
  the call.  The arguments are taken as the dictionary parsed from the call's JSON.\<close>

record ToolCall =
  tool_call_id :: string
  tool_call_name :: string
  tool_call_arguments :: "py_value py_dict"

text \<open>Modelled from the spec: \<^verbatim>\<open>from_tool_call\<close> as the provider classes implement it
  (missing from the sources): the arguments of the call are validated into an instance
  of the tool class, and the call is kept as \<^verbatim>\<open>tool_call\<close>.\<close>

definition from_tool_call :: "tool_class \<Rightarrow> ToolCall \<Rightarrow> py_error + tool_instance" where
  "from_tool_call cls tool_call =
     model_validate cls
       (AList.update ''tool_call'' (PyObject (tool_call_id tool_call))
          (tool_call_arguments tool_call))"

subsection \<open>Predicates of the statements about \<^verbatim>\<open>convert_function_to_tool\<close>\<close>

text \<open>The docstring documents position \<open>i\<close>, and its entry there has another name than
  the parameter or no description.\<close>

definition documented_wrongly :: "Docstring \<Rightarrow> nat \<Rightarrow> Parameter \<Rightarrow> bool" where
  "documented_wrongly docstring i parameter =
     (i < length (docstring_params docstring) \<and>
      (docstring_param_arg_name (docstring_params docstring ! i) \<noteq> parameter_name parameter \<or>
       \<not> truthy (docstring_param_description (docstring_params docstring ! i))))"

text \<open>The two errors about the documentation of a parameter.\<close>

definition is_documentation_error :: "py_error \<Rightarrow> bool" where
  "is_documentation_error e =
     (e = ValueError ''All parameters must have a description.'' \<or>
      (\<exists>n d. e = ValueError (name_mismatch_message n d)))"

definition is_receiver :: "Parameter \<Rightarrow> bool" where
  "is_receiver parameter = (parameter_name parameter = ''self'' \<or> parameter_name parameter = ''cls'')"

text \<open>The name of the field that the loop stores for a parameter, and the name under
  which a field is exposed (its alias when it has one).\<close>

definition field_name_of :: "Parameter \<Rightarrow> string" where
  "field_name_of parameter =
     (if startswith (parameter_name parameter) ''model_''
      then ''aliased_'' @ parameter_name parameter
      else parameter_name parameter)"

definition exposed_name :: "string \<times> annotation \<times> FieldInfo \<Rightarrow> string" where
  "exposed_name field = (case field of (n, t, info) \<Rightarrow> validation_key n info)"

text \<open>Converting a function, resolving a tool call against the tool class and reading
  the tool's \<^verbatim>\<open>args\<close> back.\<close>

definition resolve_and_serialize ::
  "(string \<Rightarrow> py_error + Docstring) \<Rightarrow>
   (Callable \<Rightarrow> py_error + (string \<rightharpoonup> annotation)) \<Rightarrow>
   (string \<Rightarrow> tool_class \<Rightarrow> string \<Rightarrow> (annotation \<times> FieldInfo) py_dict \<Rightarrow> py_error + tool_class) \<Rightarrow>
   Callable \<Rightarrow> tool_class \<Rightarrow> ToolCall \<Rightarrow> py_error + py_value py_dict" where
  "resolve_and_serialize parse get_type_hints create_model fn base tool_call =
     (case convert_function_to_tool parse get_type_hints create_model fn base of
        Inl e \<Rightarrow> Inl e
      | Inr cls \<Rightarrow>
          (case from_tool_call cls tool_call of
             Inl e \<Rightarrow> Inl e
           | Inr tool \<Rightarrow> Inr (BaseTool_args tool)))"

subsection \<open>Example inputs\<close>

text \<open>\<^verbatim>\<open>BaseTool\<close> itself, and a provider's tool base with its \<^verbatim>\<open>tool_call\<close> field.\<close>

definition base_tool :: tool_class where
  "base_tool = \<lparr> class_name = ''BaseTool'', class_doc = None, class_fn = None, class_fields = [] \<rparr>"

definition provider_tool :: tool_class where
  "provider_tool =
     \<lparr> class_name = ''OpenAITool'', class_doc = None, class_fn = None,
       class_fields =
         [(''tool_call'', ''ChatCompletionMessageToolCall'',
           \<lparr> field_annotation = ''ChatCompletionMessageToolCall'', field_default = None,
             field_description = None, field_alias = None, field_validation_alias = None,
             field_serialization_alias = None \<rparr>)] \<rparr>"

text \<open>The namespace of the example functions: the built-in types they name.\<close>

definition python_types :: "string \<rightharpoonup> annotation" where
  "python_types = [''int'' \<mapsto> ''int'', ''str'' \<mapsto> ''str'']"

definition annotated_parameter :: "string \<Rightarrow> annotation \<Rightarrow> Parameter" where
  "annotated_parameter n a =
     \<lparr> parameter_name = n, parameter_annotation = Some a, parameter_default = None \<rparr>"

definition int_parameter :: "string \<Rightarrow> Parameter" where
  "int_parameter n = annotated_parameter n ''int''"

definition receiver_parameter :: Parameter where
  "receiver_parameter =
     \<lparr> parameter_name = ''self'', parameter_annotation = None, parameter_default = None \<rparr>"

definition documented :: "string \<Rightarrow> string option \<Rightarrow> DocstringParam" where
  "documented n d = \<lparr> docstring_param_arg_name = n, docstring_param_description = d \<rparr>"

text \<open>What \<^verbatim>\<open>parse\<close> returns for the docstrings of the examples (written here without
  their line breaks): the short description and the entries of the \<^verbatim>\<open>Args\<close> section.\<close>

definition parsed :: "string \<Rightarrow> DocstringParam list \<Rightarrow> string \<Rightarrow> py_error + Docstring" where
  "parsed short ps doc =
     Inr \<lparr> docstring_short_description = Some short,
           docstring_long_description = None,
           docstring_params = ps \<rparr>"

text \<open>\<^verbatim>\<open>def add(self, a: int, b: int)\<close> in a class, its docstring documenting \<^verbatim>\<open>a\<close> and
  \<^verbatim>\<open>b\<close>.\<close>

definition add_method :: Callable where
  "add_method =
     \<lparr> callable_name = ''add'',
       callable_doc = Some ''Adds numbers. Args: a: The first. b: The second.'',
       callable_parameters = [receiver_parameter, int_parameter ''a'', int_parameter ''b''],
       callable_return_annotation = None \<rparr>"

text \<open>\<^verbatim>\<open>def negate(self, a: int)\<close> in a class, its docstring documenting \<^verbatim>\<open>a\<close>.\<close>

definition negate_method :: Callable where
  "negate_method =
     \<lparr> callable_name = ''negate'',
       callable_doc = Some ''Negates a number. Args: a: The first.'',
       callable_parameters = [receiver_parameter, int_parameter ''a''],
       callable_return_annotation = None \<rparr>"

definition parse_negate_method :: "string \<Rightarrow> py_error + Docstring" where
  "parse_negate_method = parsed ''Negates a number.'' [documented ''a'' (Some ''The first.'')]"

text \<open>\<^verbatim>\<open>def add(a: int, b: int)\<close> with the same docstring.\<close>

definition add_function :: Callable where
  "add_function =
     \<lparr> callable_name = ''add'',
       callable_doc = Some ''Adds numbers. Args: a: The first. b: The second.'',
       callable_parameters = [int_parameter ''a'', int_parameter ''b''],
       callable_return_annotation = None \<rparr>"

definition parse_add :: "string \<Rightarrow> py_error + Docstring" where
  "parse_add = parsed ''Adds numbers.'' [documented ''a'' (Some ''The first.''), documented ''b'' (Some ''The second.'')]"

text \<open>\<^verbatim>\<open>def add(a: int, b: int)\<close> whose docstring calls the second parameter \<^verbatim>\<open>c\<close>.\<close>

definition parse_add_renamed :: "string \<Rightarrow> py_error + Docstring" where
  "parse_add_renamed =
     parsed ''Adds numbers.'' [documented ''a'' (Some ''The first.''), documented ''c'' (Some ''The second.'')]"

text \<open>\<^verbatim>\<open>def negate(a: int)\<close> whose docstring documents \<^verbatim>\<open>a\<close> and then a second entry
  \<^verbatim>\<open>b\<close> with an empty description.\<close>

definition negate_function :: Callable where
  "negate_function =
     \<lparr> callable_name = ''negate'',
       callable_doc = Some ''Negates a number. Args: a: The first. b:'',
       callable_parameters = [int_parameter ''a''],
       callable_return_annotation = None \<rparr>"

definition parse_negate :: "string \<Rightarrow> py_error + Docstring" where
  "parse_negate =
     parsed ''Negates a number.'' [documented ''a'' (Some ''The first.''), documented ''b'' (Some [])]"

text \<open>\<^verbatim>\<open>def load(model_x: int)\<close> with its parameter documented, and a tool call that
  supplies \<^verbatim>\<open>model_x = 3\<close>.\<close>

definition load_function :: Callable where
  "load_function =
     \<lparr> callable_name = ''load'',
       callable_doc = Some ''Loads a model. Args: model_x: The model.'',
       callable_parameters = [int_parameter ''model_x''],
       callable_return_annotation = None \<rparr>"

definition parse_load :: "string \<Rightarrow> py_error + Docstring" where
  "parse_load = parsed ''Loads a model.'' [documented ''model_x'' (Some ''The model.'')]"

definition load_call :: ToolCall where
  "load_call =
     \<lparr> tool_call_id = ''call_1'', tool_call_name = ''Load'',
       tool_call_arguments = [(''model_x'', PyInt 3)] \<rparr>"

text \<open>Two functions that are documented rightly and still do not convert:
  \<^verbatim>\<open>def hidden(_a: int)\<close>, whose field name pydantic refuses, and
  \<^verbatim>\<open>def forward(a: 'Undefined')\<close>, whose annotation names nothing.\<close>

definition hidden_function :: Callable where
  "hidden_function =
     \<lparr> callable_name = ''hidden'',
       callable_doc = Some ''Hides a number. Args: _a: The first.'',
       callable_parameters = [int_parameter ''_a''],
       callable_return_annotation = None \<rparr>"

definition parse_hidden :: "string \<Rightarrow> py_error + Docstring" where
  "parse_hidden = parsed ''Hides a number.'' [documented ''_a'' (Some ''The first.'')]"

definition forward_function :: Callable where
  "forward_function =
     \<lparr> callable_name = ''forward'',
       callable_doc = Some ''Forwards a value. Args: a: The first.'',
       callable_parameters = [annotated_parameter ''a'' ''Undefined''],
       callable_return_annotation = None \<rparr>"

definition parse_forward :: "string \<Rightarrow> py_error + Docstring" where
  "parse_forward = parsed ''Forwards a value.'' [documented ''a'' (Some ''The first.'')]"

text \<open>A function without a docstring, and the JSON schema of a tool class without one.\<close>

definition undocumented_function :: Callable where
  "undocumented_function =
     \<lparr> callable_name = ''add'', callable_doc = None,
       callable_parameters = [int_parameter ''a''],
       callable_return_annotation = None \<rparr>"

definition undocumented_schema :: model_json_schema where
  "undocumented_schema =
     \<lparr> schema_title = ''Add'', schema_description = None,
       schema_properties = [(''a'', [(''type'', JStr ''integer'')])],
       schema_required = Some [''a''], schema_defs = None \<rparr>"

text \<open>The JSON schema of a provider tool \<^verbatim>\<open>FormatBook\<close> with one field of its own.\<close>

definition format_book_schema :: model_json_schema where
  "format_book_schema =
     \<lparr> schema_title = ''FormatBook'',
       schema_description = Some ''Returns the title nicely formatted.'',
       schema_properties =
         [(''tool_call'', [(''$ref'', JStr ''#/$defs/ChatCompletionMessageToolCall'')]),
          (''title'', [(''title'', JStr ''Title''), (''type'', JStr ''string'')])],
       schema_required = Some [''tool_call'', ''title''],
       schema_defs =
         Some [(''ChatCompletionMessageToolCall'', JObj [(''type'', JStr ''object'')]),
               (''Function'', JObj [(''type'', JStr ''object'')])] \<rparr>"

text \<open>What \<^verbatim>\<open>tool_schema\<close> emits for it.\<close>

definition format_book_parameters :: tool_parameters where
  "format_book_parameters =
     \<lparr> parameters_type = ''object'',
       parameters_properties = [(''title'', [(''title'', JStr ''Title''), (''type'', JStr ''string'')])],
       parameters_required = [''title''],
       parameters_defs = [] \<rparr>"

definition format_book_function :: function_schema where
  "format_book_function =
     \<lparr> function_name = ''FormatBook'',
       function_description = ''Returns the title nicely formatted.'',
       function_parameters = Some format_book_parameters \<rparr>"

text \<open>The JSON schema of a provider tool \<^verbatim>\<open>CallBack\<close> whose one field \<^verbatim>\<open>callback\<close> has a
  type that the user declared under the name \<^verbatim>\<open>Function\<close>.  The provider's tool call
  refers to a class of the same name (the function of the call), so pydantic keys
  both definitions by their module-qualified names; the definition of the tool call
  refers to its function under that key.\<close>

definition tool_call_function_definition :: json where
  "tool_call_function_definition =
     JObj [(''properties'',
              JObj [(''arguments'', JObj [(''title'', JStr ''Arguments''), (''type'', JStr ''string'')]),
                    (''name'', JObj [(''title'', JStr ''Name''), (''type'', JStr ''string'')])]),
           (''required'', JArr [JStr ''arguments'', JStr ''name'']),
           (''title'', JStr ''Function''),
           (''type'', JStr ''object'')]"

definition user_function_definition :: json where
  "user_function_definition =
     JObj [(''properties'',
              JObj [(''url'', JObj [(''title'', JStr ''Url''), (''type'', JStr ''string'')])]),
           (''required'', JArr [JStr ''url'']),
           (''title'', JStr ''Function''),
           (''type'', JStr ''object'')]"

definition tool_call_definition :: json where
  "tool_call_definition =
     JObj [(''properties'',
              JObj [(''id'', JObj [(''title'', JStr ''Id''), (''type'', JStr ''string'')]),
                    (''function'',
                       JObj [(''$ref'',
                              JStr ''#/$defs/openai__types__chat__chat_completion_message_tool_call__Function'')]),
                    (''type'', JObj [(''const'', JStr ''function''), (''title'', JStr ''Type'')])]),
           (''required'', JArr [JStr ''id'', JStr ''function'', JStr ''type'']),
           (''title'', JStr ''ChatCompletionMessageToolCall''),
           (''type'', JStr ''object'')]"

definition callback_schema :: model_json_schema where
  "callback_schema =
     \<lparr> schema_title = ''CallBack'',
       schema_description = Some ''Calls back.'',
       schema_properties =
         [(''tool_call'', [(''$ref'', JStr ''#/$defs/ChatCompletionMessageToolCall'')]),
          (''callback'', [(''$ref'', JStr ''#/$defs/__main____Function'')])],
       schema_required = Some [''tool_call'', ''callback''],
       schema_defs =
         Some [(''ChatCompletionMessageToolCall'', tool_call_definition),
               (''__main____Function'', user_function_definition),
               (''openai__types__chat__chat_completion_message_tool_call__Function'',
                tool_call_function_definition)] \<rparr>"

section \<open>Call responses, cost and streams\<close>

text \<open>
  The response wrappers, the cost calculators, the price table and the stream classes
  are not among the sources; only the tests of two stream classes are
  (\<^verbatim>\<open>tests/core/cohere/test_stream.py\<close>, \<^verbatim>\<open>tests/core/groq/test_stream.py\<close>).  This
  section models them from the spec, in the provider-independent shape the spec gives
  them.
\<close>

subsection \<open>The price table and the cost\<close>

text \<open>Modelled from the spec: the price table, which is missing from the sources.  The
  spec: a static mapping of (provider, model name) to (cost per input token, cost per
  output token).  It is a parameter of everything that computes a cost.\<close>

type_synonym price_table = "string \<times> string \<rightharpoonup> real \<times> real"

text \<open>Modelled from the spec: the token usage of a response, which is missing from the
  sources.  The spec: token usage is the input and output counts.\<close>

record usage_counts =
  counts_input_tokens :: nat
  counts_output_tokens :: nat

text \<open>Modelled from the spec: the cost calculator, which is missing from the sources.
  The spec: the cost is computed from the price table keyed by (provider, model name)
  using the input and output token counts; it is null if the model is unrecognized or
  the usage is absent, and the computation never raises.\<close>

definition calculate_cost ::
  "price_table \<Rightarrow> string \<Rightarrow> nat option \<Rightarrow> nat option \<Rightarrow> string \<Rightarrow> py_error + real option" where
  "calculate_cost prices provider input_tokens output_tokens model_name =
     (case (input_tokens, output_tokens) of
        (Some i, Some n) \<Rightarrow>
          (case prices (provider, model_name) of
             None \<Rightarrow> Inr None
           | Some (per_input, per_output) \<Rightarrow> Inr (Some (real i * per_input + real n * per_output)))
      | _ \<Rightarrow> Inr None)"

subsection \<open>The call response\<close>

text \<open>Modelled from the spec: the raw response of a provider as far as the wrapper reads
  it, and the \<^verbatim>\<open>CallResponse\<close> wrapper with its attributes; the provider modules are
  missing from the sources.  The spec: \<^verbatim>\<open>content\<close> is the text payload, the empty string
  if none; \<^verbatim>\<open>finish_reasons\<close> is null if the provider gives none; \<^verbatim>\<open>usage\<close>,
  \<^verbatim>\<open>input_tokens\<close> and \<^verbatim>\<open>output_tokens\<close> are null when the usage is absent; \<^verbatim>\<open>cost\<close> comes
  from the price table; \<^verbatim>\<open>message_param\<close> is the assistant-turn message.\<close>

record raw_response =
  response_id :: "string option"
  response_model :: string
  response_text :: "string option"
  response_finish_reasons :: "string list option"
  response_usage :: "usage_counts option"
  response_tool_calls :: "ToolCall list option"

text \<open>Modelled from the spec: the message parameter, missing from the sources.  The
  spec: the assistant-turn message, suitable for appending to the conversation history;
  the tests show its role, its content and its optional tool calls.\<close>

record message_param =
  message_role :: string
  message_text :: string
  message_tool_calls :: "ToolCall list option"

text \<open>Modelled from the spec: the \<^verbatim>\<open>CallResponse\<close> class, missing from the sources.  The
  spec: it wraps one full, non-streamed result; the provider is the \<^verbatim>\<open>_provider\<close> that
  the tests compare.\<close>

record CallResponse =
  call_response_provider :: string
  call_response_response :: raw_response

text \<open>Modelled from the spec: the attributes of \<^verbatim>\<open>CallResponse\<close> that the cost is
  computed from, missing from the sources; each as the spec's contract of the call
  response wrapper words it (quoted above).\<close>

definition CallResponse_model :: "CallResponse \<Rightarrow> string" where
  "CallResponse_model self = response_model (call_response_response self)"

definition CallResponse_usage :: "CallResponse \<Rightarrow> usage_counts option" where
  "CallResponse_usage self = response_usage (call_response_response self)"

definition CallResponse_input_tokens :: "CallResponse \<Rightarrow> nat option" where
  "CallResponse_input_tokens self = map_option counts_input_tokens (CallResponse_usage self)"

definition CallResponse_output_tokens :: "CallResponse \<Rightarrow> nat option" where
  "CallResponse_output_tokens self = map_option counts_output_tokens (CallResponse_usage self)"

definition CallResponse_cost :: "price_table \<Rightarrow> CallResponse \<Rightarrow> py_error + real option" where
  "CallResponse_cost prices self =
     calculate_cost prices (call_response_provider self)
       (CallResponse_input_tokens self) (CallResponse_output_tokens self)
       (CallResponse_model self)"

subsection \<open>The stream\<close>

text \<open>Modelled from the spec: the chunk wrapper in its provider-independent shape, and the
  \<^verbatim>\<open>Stream\<close> class, which is missing from the sources.  The spec: a stream is an iterator
  over (chunk, tool-or-null) pairs with the states NotStarted, Consuming and Exhausted.
  Each pull yields one pair; the content is appended; the usage is overwritten with
  the latest non-null value seen; the tool calls are collected.  At exhaustion the
  message parameter is built.  Before exhaustion cost and message parameter are null.  The model, the id and the
  finish reasons are kept like the usage: the latest non-null value seen.\<close>

text \<open>Modelled from the spec: \<^verbatim>\<open>CallResponseChunk\<close> in its provider-independent shape.
  The spec: the same conceptual attributes as the call response, each partial or absent
  (content the empty string, usage null) until the terminal chunk.\<close>

record CallResponseChunk =
  chunk_content :: string
  chunk_finish_reasons :: "string list option"
  chunk_model :: "string option"
  chunk_id :: "string option"
  chunk_usage :: "usage_counts option"

text \<open>Modelled from the spec: the tool of a pair, missing from the sources.  The spec: an
  instantiated tool with concrete argument values, tied to a provider-specific call.\<close>

record ToolCallInstance =
  instance_tool_call :: ToolCall
  instance_tool :: tool_instance

text \<open>Modelled from the spec: the states and the accumulators of a \<^verbatim>\<open>Stream\<close>, missing
  from the sources.\<close>

datatype stream_state = NotStarted | Consuming | Exhausted

record Stream =
  stream_provider :: string
  stream_source :: "(CallResponseChunk \<times> ToolCallInstance option) list"
  stream_state :: stream_state
  stream_model :: string
  stream_content :: string
  stream_id :: "string option"
  stream_finish_reasons :: "string list option"
  stream_usage :: "usage_counts option"
  stream_tool_calls :: "ToolCall list"
  stream_message_param :: "message_param option"

text \<open>Modelled from the spec: the constructor of \<^verbatim>\<open>Stream\<close>, missing from the sources.
  The spec: in NotStarted no chunk has been pulled and cost, usage and message parameter
  are null; the tests construct a stream from its pairs and a model.\<close>

definition new_stream ::
  "string \<Rightarrow> string \<Rightarrow> (CallResponseChunk \<times> ToolCallInstance option) list \<Rightarrow> Stream" where
  "new_stream provider model_name source =
     \<lparr> stream_provider = provider,
       stream_source = source,
       stream_state = NotStarted,
       stream_model = model_name,
       stream_content = [],
       stream_id = None,
       stream_finish_reasons = None,
       stream_usage = None,
       stream_tool_calls = [],
       stream_message_param = None \<rparr>"

text \<open>Modelled from the spec: "overwritten with the latest non-null value seen".\<close>

definition latest :: "'a option \<Rightarrow> 'a option \<Rightarrow> 'a option" where
  "latest seen new = (case new of None \<Rightarrow> seen | Some v \<Rightarrow> Some v)"

text \<open>Modelled from the spec: the assistant-turn message of a stream, missing from the
  sources; the tests show that tool calls are null when the stream had none.\<close>

definition construct_message_param :: "ToolCall list \<Rightarrow> string \<Rightarrow> message_param" where
  "construct_message_param tool_calls content =
     \<lparr> message_role = ''assistant'',
       message_text = content,
       message_tool_calls = (if tool_calls = [] then None else Some tool_calls) \<rparr>"

text \<open>Modelled from the spec: what one pulled pair does to the accumulators, missing
  from the sources.  The spec: content is appended, usage is overwritten with the latest
  non-null value seen, the tool calls are collected.\<close>

definition update_properties ::
  "Stream \<Rightarrow> CallResponseChunk \<Rightarrow> ToolCallInstance option \<Rightarrow> Stream" where
  "update_properties self chunk tool =
     self\<lparr> stream_content := stream_content self @ chunk_content chunk,
           stream_usage := latest (stream_usage self) (chunk_usage chunk),
           stream_model := (case chunk_model chunk of None \<Rightarrow> stream_model self | Some m \<Rightarrow> m),
           stream_id := latest (stream_id self) (chunk_id chunk),
           stream_finish_reasons :=
             latest (stream_finish_reasons self) (chunk_finish_reasons chunk),
           stream_tool_calls :=
             (case tool of
                None \<Rightarrow> stream_tool_calls self
              | Some t \<Rightarrow> stream_tool_calls self @ [instance_tool_call t]) \<rparr>"

text \<open>Modelled from the spec: one pull of the stream, missing from the sources.  The
  spec: each pull yields one (chunk, tool-or-null) pair; when the source is exhausted the
  stream is Exhausted.  \<open>None\<close> is the end of the iteration.\<close>

definition stream_next ::
  "Stream \<Rightarrow> (CallResponseChunk \<times> ToolCallInstance option) option \<times> Stream" where
  "stream_next self =
     (case stream_source self of
        [] \<Rightarrow>
          (None,
           self\<lparr> stream_state := Exhausted,
                 stream_message_param :=
                   Some (construct_message_param (stream_tool_calls self) (stream_content self)) \<rparr>)
      | (chunk, tool) # rest \<Rightarrow>
          (Some (chunk, tool),
           (update_properties self chunk tool)\<lparr> stream_source := rest, stream_state := Consuming \<rparr>))"

text \<open>Modelled from the spec: the iteration to the end (\<^verbatim>\<open>for _ in stream: pass\<close> in the
  tests), missing from the sources: pull until the iteration ends.\<close>

function consume :: "Stream \<Rightarrow> Stream" where
  "consume self =
     (case stream_next self of
        (None, exhausted) \<Rightarrow> exhausted
      | (Some pair, self') \<Rightarrow> consume self')"
  by pat_completeness auto
termination
  by (relation "measure (\<lambda>self. length (stream_source self))")
     (auto simp: stream_next_def update_properties_def split: list.splits)

declare consume.simps [simp del]

text \<open>Modelled from the spec: the \<^verbatim>\<open>cost\<close> of a stream, missing from the sources.  The
  spec: null until the iteration completes, then the price-table cost of the usage.\<close>

definition Stream_cost :: "price_table \<Rightarrow> Stream \<Rightarrow> py_error + real option" where
  "Stream_cost prices self =
     (if stream_state self = Exhausted then
        calculate_cost prices (stream_provider self)
          (map_option counts_input_tokens (stream_usage self))
          (map_option counts_output_tokens (stream_usage self))
          (stream_model self)
      else Inr None)"

text \<open>Modelled from the spec: the \<^verbatim>\<open>message_param\<close> of a stream, missing from the sources.
  The spec: null until the iteration completes.\<close>

definition Stream_message_param :: "Stream \<Rightarrow> message_param option" where
  "Stream_message_param self = stream_message_param self"

subsection \<open>The last value given\<close>

text \<open>The last non-null value of a sequence: what "the latest non-null value seen"
  amounts to once every chunk has been pulled.\<close>

definition last_given :: "'a option list \<Rightarrow> 'a option" where
  "last_given xs = (case List.map_filter (\<lambda>x. x) xs of [] \<Rightarrow> None | ys \<Rightarrow> Some (last ys))"

subsection \<open>The streams of the tests and of the spec's scenario\<close>

definition text_chunk :: "string \<Rightarrow> CallResponseChunk" where
  "text_chunk t =
     \<lparr> chunk_content = t, chunk_finish_reasons = None, chunk_model = None,
       chunk_id = None, chunk_usage = None \<rparr>"

text \<open>\<^verbatim>\<open>test_cohere_stream\<close>: a start chunk with the id, a text chunk, an end chunk with the
  finish reason and the billed units.\<close>

definition cohere_chunks :: "(CallResponseChunk \<times> ToolCallInstance option) list" where
  "cohere_chunks =
     [((text_chunk []) \<lparr> chunk_id := Some ''id'' \<rparr>, None),
      (text_chunk ''content'', None),
      ((text_chunk [])
         \<lparr> chunk_finish_reasons := Some [''COMPLETE''],
           chunk_usage := Some \<lparr> counts_input_tokens = 1, counts_output_tokens = 1 \<rparr> \<rparr>, None)]"

text \<open>\<^verbatim>\<open>test_groq_stream\<close>: a content chunk, then a chunk without content that carries the
  usage and comes with the tool \<^verbatim>\<open>FormatBook\<close> resolved from its tool call.\<close>

definition format_book_call :: ToolCall where
  "format_book_call =
     \<lparr> tool_call_id = ''id'', tool_call_name = ''FormatBook'',
       tool_call_arguments =
         [(''title'', PyStr ''The Name of the Wind''), (''author'', PyStr ''Patrick Rothfuss'')] \<rparr>"

definition format_book_tool :: ToolCallInstance where
  "format_book_tool =
     \<lparr> instance_tool_call = format_book_call,
       instance_tool =
         \<lparr> instance_class =
             \<lparr> class_name = ''FormatBook'',
               class_doc = Some ''Returns the title and author nicely formatted.'',
               class_fn = None,
               class_fields = [] \<rparr>,
           instance_values =
             [(''tool_call'', PyObject ''id''),
              (''title'', PyStr ''The Name of the Wind''),
              (''author'', PyStr ''Patrick Rothfuss'')] \<rparr> \<rparr>"

definition groq_chunks :: "(CallResponseChunk \<times> ToolCallInstance option) list" where
  "groq_chunks =
     [((text_chunk ''content'')
         \<lparr> chunk_model := Some ''llama3-70b-8192'', chunk_id := Some ''id'' \<rparr>, None),
      ((text_chunk [])
         \<lparr> chunk_model := Some ''llama3-70b-8192'', chunk_id := Some ''id'',
           chunk_usage := Some \<lparr> counts_input_tokens = 1, counts_output_tokens = 1 \<rparr> \<rparr>,
       Some format_book_tool)]"

text \<open>The prices under which the costs asserted by the two tests come out
  (\<open>1.8e-5\<close> and \<open>1.38e-6\<close> for one input and one output token).\<close>

definition test_prices :: price_table where
  "test_prices =
     [(''cohere'', ''command-r-plus'') \<mapsto> (3 / 1000000, 15 / 1000000),
      (''groq'', ''llama3-70b-8192'') \<mapsto> (59 / 100000000, 79 / 100000000)]"

text \<open>The scenario of the spec: two content chunks, then a terminal chunk with the usage
  and the finish reason.\<close>

definition scenario_chunks :: "(CallResponseChunk \<times> ToolCallInstance option) list" where
  "scenario_chunks =
     [(text_chunk ''Sure, '', None),
      (text_chunk ''I recommend...'', None),
      ((text_chunk [])
         \<lparr> chunk_finish_reasons := Some [''stop''],
           chunk_usage := Some \<lparr> counts_input_tokens = 10, counts_output_tokens = 5 \<rparr> \<rparr>, None)]"

text \<open>A response without usage data, and one whose model has no price.\<close>

definition response_without_usage :: CallResponse where
  "response_without_usage =
     \<lparr> call_response_provider = ''groq'',
       call_response_response =
         \<lparr> response_id = Some ''id'', response_model = ''llama3-70b-8192'',
           response_text = Some ''content'', response_finish_reasons = Some [''stop''],
           response_usage = None, response_tool_calls = None \<rparr> \<rparr>"

definition response_of_unknown_model :: CallResponse where
  "response_of_unknown_model =
     \<lparr> call_response_provider = ''groq'',
       call_response_response =
         \<lparr> response_id = Some ''id'', response_model = ''no-such-model'',
           response_text = Some ''content'', response_finish_reasons = Some [''stop''],
           response_usage = Some \<lparr> counts_input_tokens = 1, counts_output_tokens = 1 \<rparr>,
           response_tool_calls = None \<rparr> \<rparr>"

section \<open>Properties of the Anthropic chunk wrapper\<close>

text \<open>
  C9.  For every Anthropic streaming event the \<^verbatim>\<open>content\<close> property returns (it never
  raises): the delta's text when the event is a content-block delta carrying a text
  delta, and the empty string for every other event.  The \<^verbatim>\<open>usage\<close> property is
  non-null exactly for the message-start and message-delta events, the two event
  classes that have a usage substructure.
\<close>

theorem chunk_content_and_usage:
  "AnthropicCallResponseChunk_content chunk =
     Inr (case chunk of
            RawContentBlockDeltaEvent i (TextDelta t) \<Rightarrow> t
          | _ \<Rightarrow> '''')
   \<and> (AnthropicCallResponseChunk_usage chunk \<noteq> None) =
       (event_type chunk = ''message_start'' \<or> event_type chunk = ''message_delta'')"
proof (cases chunk)
  case (RawContentBlockDeltaEvent i d)
  then show ?thesis
    by (cases d) (simp_all add: AnthropicCallResponseChunk_content_def)
qed (simp_all add: AnthropicCallResponseChunk_content_def)

text \<open>
  C10.  The \<^verbatim>\<open>finish_reasons\<close> property is non-null exactly when the event is a
  message-start event whose message carries a stop reason.  In particular a message-delta
  event yields null whatever stop reason its delta carries.
\<close>

theorem chunk_finish_reasons_only_message_start:
  "(AnthropicCallResponseChunk_finish_reasons chunk \<noteq> None) =
     (\<exists>m r. chunk = RawMessageStartEvent m \<and> message_stop_reason m = Some r)
   \<and> AnthropicCallResponseChunk_finish_reasons (RawMessageDeltaEvent d u) = None"
  by (cases chunk) (auto split: option.splits)

section \<open>Properties of the tool schema builder\<close>

lemmas example_defs =
  base_tool_def provider_tool_def python_types_def annotated_parameter_def int_parameter_def
  receiver_parameter_def documented_def
  parsed_def add_method_def add_function_def parse_add_def parse_add_renamed_def
  negate_function_def parse_negate_def load_function_def parse_load_def load_call_def
  hidden_function_def parse_hidden_def forward_function_def parse_forward_def
  undocumented_function_def undocumented_schema_def format_book_schema_def
  format_book_parameters_def format_book_function_def negate_method_def parse_negate_method_def

lemmas convert_defs =
  convert_function_to_tool_def field_definition_def docstring_description_at_def
  typing_get_type_hints_def callable_annotations_def pydantic_create_model_def
  tool_fn_def tool_doc_def startswith_def name_mismatch_message_def Let_def

subsection \<open>When the loop over the signature raises\<close>

lemma docstring_description_at_isl:
  "isl (docstring_description_at docstring i parameter) = documented_wrongly docstring i parameter"
  by (simp add: docstring_description_at_def documented_wrongly_def Let_def)

lemma docstring_description_at_error:
  "docstring_description_at docstring i parameter = Inl e \<Longrightarrow> is_documentation_error e"
  by (auto simp: docstring_description_at_def is_documentation_error_def Let_def split: if_splits)

lemma field_definition_isl:
  assumes "parameter_annotation parameter \<noteq> None \<longrightarrow> hints (parameter_name parameter) \<noteq> None"
  shows "isl (field_definition docstring hints i parameter) =
           (parameter_annotation parameter = None \<or> documented_wrongly docstring i parameter)"
  using assms docstring_description_at_isl [of docstring i parameter]
  by (auto simp: field_definition_def Let_def split: option.splits sum.splits)

lemma field_definition_error:
  assumes "field_definition docstring hints i parameter = Inl e"
    and "parameter_annotation parameter \<noteq> None"
    and "hints (parameter_name parameter) \<noteq> None"
  shows "is_documentation_error e"
  using assms
  by (auto simp: field_definition_def Let_def split: option.splits sum.splits if_splits
      dest: docstring_description_at_error)

text \<open>When the type hints evaluate, every annotated parameter has its entry in them, so
  the lookup \<^verbatim>\<open>hints[parameter.name]\<close> of the loop does not fail.\<close>

lemma evaluate_annotations_keys:
  "evaluate_annotations namespace annotations = Inr hints \<Longrightarrow> map fst hints = map fst annotations"
proof (induction annotations arbitrary: hints)
  case Nil
  then show ?case by simp
next
  case (Cons entry annotations)
  obtain n a where entry: "entry = (n, a)" by (cases entry)
  from Cons.prems obtain t rest where
    "namespace a = Some t" "evaluate_annotations namespace annotations = Inr rest"
    "hints = (n, t) # rest"
    by (auto simp: entry split: option.splits sum.splits)
  with Cons.IH [of rest] show ?case by (simp add: entry)
qed

lemma typing_get_type_hints_annotated:
  assumes "typing_get_type_hints namespace fn = Inr hints"
    and "p \<in> set (callable_parameters fn)" and "parameter_annotation p \<noteq> None"
  shows "hints (parameter_name p) \<noteq> None"
proof -
  from assms(1) obtain evaluated where
    ev: "evaluate_annotations namespace (callable_annotations fn) = Inr evaluated" and
    hints: "hints = map_of evaluated"
    by (auto simp: typing_get_type_hints_def split: sum.splits)
  from assms(3) obtain a where a: "parameter_annotation p = Some a" by auto
  have "(parameter_name p, a) \<in> set (callable_annotations fn)"
    using assms(2) a by (force simp: callable_annotations_def List.map_filter_def)
  then have "parameter_name p \<in> set (map fst (callable_annotations fn))"
    by force
  then have "parameter_name p \<in> fst ` set evaluated"
    using evaluate_annotations_keys [OF ev] by (metis set_map)
  then show ?thesis
    by (simp add: hints map_of_eq_None_iff)
qed

text \<open>The loop raises exactly when some parameter that is not a receiver lacks its
  annotation or is documented wrongly at its own index of the signature.\<close>

lemma collect_field_definitions_isl:
  assumes "\<forall>p \<in> set ps. parameter_annotation p \<noteq> None \<longrightarrow> hints (parameter_name p) \<noteq> None"
  shows "isl (collect_field_definitions docstring hints (enumerate k ps) acc) =
           (\<exists>j < length ps. \<not> is_receiver (ps ! j) \<and>
              (parameter_annotation (ps ! j) = None \<or> documented_wrongly docstring (k + j) (ps ! j)))"
  using assms
proof (induction ps arbitrary: k acc)
  case Nil
  then show ?case by simp
next
  case (Cons p ps)
  let ?bad = "\<lambda>i q. \<not> is_receiver q \<and>
                (parameter_annotation q = None \<or> documented_wrongly docstring i q)"
  have split: "(\<exists>j < length (p # ps). ?bad (k + j) ((p # ps) ! j)) =
                 (?bad k p \<or> (\<exists>j < length ps. ?bad (Suc k + j) (ps ! j)))"
    by (auto simp: less_Suc_eq_0_disj)
  have rest: "\<And>acc'. isl (collect_field_definitions docstring hints (enumerate (Suc k) ps) acc') =
                 (\<exists>j < length ps. ?bad (Suc k + j) (ps ! j))"
    using Cons.IH Cons.prems by simp
  have fd: "isl (field_definition docstring hints k p) =
              (parameter_annotation p = None \<or> documented_wrongly docstring k p)"
    using Cons.prems by (intro field_definition_isl) simp
  have "isl (collect_field_definitions docstring hints (enumerate k (p # ps)) acc) =
          (?bad k p \<or> (\<exists>j < length ps. ?bad (Suc k + j) (ps ! j)))"
  proof (cases "is_receiver p")
    case True
    then have eq: "collect_field_definitions docstring hints (enumerate k (p # ps)) acc =
                 collect_field_definitions docstring hints (enumerate (Suc k) ps) acc"
      by (simp add: is_receiver_def)
    show ?thesis
      by (simp only: eq rest [of acc]) (use True in blast)
  next
    case False
    then have name: "\<not> (parameter_name p = ''self'' \<or> parameter_name p = ''cls'')"
      by (simp add: is_receiver_def)
    show ?thesis
    proof (cases "field_definition docstring hints k p")
      case (Inl e)
      then have "isl (collect_field_definitions docstring hints (enumerate k (p # ps)) acc)"
        using name by simp
      moreover have "?bad k p" using False fd Inl by simp
      ultimately show ?thesis by blast
    next
      case (Inr entry)
      obtain n v where entry: "entry = (n, v)" by (cases entry)
      have eq: "collect_field_definitions docstring hints (enumerate k (p # ps)) acc =
              collect_field_definitions docstring hints (enumerate (Suc k) ps) (AList.update n v acc)"
        using name Inr entry by simp
      have nb: "\<not> ?bad k p" using fd Inr by simp
      show ?thesis
        by (simp only: eq rest [of "AList.update n v acc"]) (use nb in blast)
    qed
  qed
  then show ?case unfolding split .
qed

lemma collect_field_definitions_error:
  assumes "collect_field_definitions docstring hints (enumerate k ps) acc = Inl e"
    and "\<forall>p \<in> set ps. \<not> is_receiver p \<longrightarrow>
           parameter_annotation p \<noteq> None \<and> hints (parameter_name p) \<noteq> None"
  shows "is_documentation_error e"
  using assms
proof (induction ps arbitrary: k acc)
  case Nil
  then show ?case by simp
next
  case (Cons p ps)
  show ?case
  proof (cases "is_receiver p")
    case True
    then show ?thesis using Cons by (simp add: is_receiver_def)
  next
    case False
    show ?thesis
    proof (cases "field_definition docstring hints k p")
      case (Inl e')
      then have "e' = e" using Cons.prems(1) False by (simp add: is_receiver_def)
      then show ?thesis using Inl Cons.prems(2) False field_definition_error by auto
    next
      case (Inr entry)
      then show ?thesis using Cons False
        by (cases entry) (simp add: is_receiver_def)
    qed
  qed
qed

text \<open>What \<^verbatim>\<open>convert_function_to_tool\<close> returns once the docstring is there and parsed
  and the type hints are evaluated: the error of the loop, or else what
  \<^verbatim>\<open>create_model\<close> returns for the fields that the loop collected.\<close>

lemma convert_function_to_tool_after_hints:
  assumes "truthy (callable_doc fn)"
    and "parse (the (callable_doc fn)) = Inr docstring"
    and "get_type_hints fn = Inr hints"
  shows "convert_function_to_tool parse get_type_hints create_model fn base =
           (case collect_field_definitions docstring hints (enumerate 0 (callable_parameters fn)) [] of
              Inl e \<Rightarrow> Inl e
            | Inr field_definitions \<Rightarrow>
                create_model
                  (concat (map str_title (str_split (callable_name fn) CHR ''_'')))
                  (tool_fn fn base)
                  (tool_doc docstring)
                  field_definitions)"
  using assms by (simp add: convert_function_to_tool_def)

subsection \<open>Plain functions keep the order of the signature\<close>

text \<open>Storing under a key that the dictionary does not hold appends the entry.\<close>

lemma update_fresh:
  "k \<notin> fst ` set al \<Longrightarrow> AList.update k v al = al @ [(k, v)]"
  by (induction al) auto

lemma fold_update_fresh:
  "distinct (map fst (acc @ fds)) \<Longrightarrow>
   fold (\<lambda>(k, v). AList.update k v) fds acc = acc @ fds"
proof (induction fds arbitrary: acc)
  case Nil
  then show ?case by simp
next
  case (Cons f fds)
  obtain k v where f: "f = (k, v)" by (cases f)
  have fresh: "k \<notin> fst ` set acc" using Cons.prems f by auto
  have "distinct (map fst ((acc @ [(k, v)]) @ fds))" using Cons.prems f by simp
  from Cons.IH [OF this] show ?case
    by (simp add: f update_fresh [OF fresh])
qed

text \<open>A parameter that is annotated and not documented wrongly gets its field, stored
  under \<^const>\<open>field_name_of\<close> and exposed under the parameter's own name.\<close>

lemma field_definition_documented:
  assumes "parameter_annotation p \<noteq> None"
    and "hints (parameter_name p) \<noteq> None"
    and "\<not> documented_wrongly docstring i p"
  shows "\<exists>t info. field_definition docstring hints i p = Inr (field_name_of p, t, info) \<and>
           validation_key (field_name_of p) info = parameter_name p"
proof -
  from assms(3) have "\<not> isl (docstring_description_at docstring i p)"
    by (simp add: docstring_description_at_isl)
  then obtain d where d: "docstring_description_at docstring i p = Inr d"
    by (cases "docstring_description_at docstring i p") auto
  from assms(1) obtain a where a: "parameter_annotation p = Some a" by auto
  from assms(2) obtain h where h: "hints (parameter_name p) = Some h" by auto
  show ?thesis
    by (simp add: field_definition_def a d h Let_def field_name_of_def validation_key_def)
qed

lemma collect_field_definitions_order:
  assumes "\<forall>p \<in> set ps. \<not> is_receiver p \<and> parameter_annotation p \<noteq> None \<and>
             hints (parameter_name p) \<noteq> None"
    and "\<forall>j < length ps. \<not> documented_wrongly docstring (k + j) (ps ! j)"
    and "distinct (map fst acc @ map field_name_of ps)"
  shows "\<exists>fds. collect_field_definitions docstring hints (enumerate k ps) acc = Inr (acc @ fds) \<and>
           map fst fds = map field_name_of ps \<and>
           map exposed_name fds = map parameter_name ps"
  using assms
proof (induction ps arbitrary: k acc)
  case Nil
  then show ?case by simp
next
  case (Cons p ps)
  have p: "\<not> is_receiver p" "parameter_annotation p \<noteq> None" "hints (parameter_name p) \<noteq> None"
    using Cons.prems(1) by simp_all
  have "\<not> documented_wrongly docstring k p"
    using Cons.prems(2) by fastforce
  with p obtain t info where
    fd: "field_definition docstring hints k p = Inr (field_name_of p, t, info)" and
    key: "validation_key (field_name_of p) info = parameter_name p"
    using field_definition_documented by blast
  have fresh: "field_name_of p \<notin> fst ` set acc"
    using Cons.prems(3) by auto
  let ?acc = "acc @ [(field_name_of p, t, info)]"
  have step: "collect_field_definitions docstring hints (enumerate k (p # ps)) acc =
                collect_field_definitions docstring hints (enumerate (Suc k) ps) ?acc"
    using p(1) fd by (simp add: is_receiver_def update_fresh [OF fresh])
  have rest1: "\<forall>q \<in> set ps. \<not> is_receiver q \<and> parameter_annotation q \<noteq> None \<and>
                 hints (parameter_name q) \<noteq> None"
    using Cons.prems(1) by simp
  have rest2: "\<forall>j < length ps. \<not> documented_wrongly docstring (Suc k + j) (ps ! j)"
  proof (intro allI impI)
    fix j assume "j < length ps"
    then have "Suc j < length (p # ps)" by simp
    with Cons.prems(2) have "\<not> documented_wrongly docstring (k + Suc j) ((p # ps) ! Suc j)"
      by blast
    then show "\<not> documented_wrongly docstring (Suc k + j) (ps ! j)" by simp
  qed
  have rest3: "distinct (map fst ?acc @ map field_name_of ps)"
    using Cons.prems(3) by auto
  from Cons.IH [OF rest1 rest2 rest3] obtain fds where
    fds: "collect_field_definitions docstring hints (enumerate (Suc k) ps) ?acc = Inr (?acc @ fds)"
      "map fst fds = map field_name_of ps" "map exposed_name fds = map parameter_name ps"
    by blast
  show ?case
  proof (intro exI conjI)
    show "collect_field_definitions docstring hints (enumerate k (p # ps)) acc =
            Inr (acc @ (field_name_of p, t, info) # fds)"
      using step fds(1) by simp
    show "map fst ((field_name_of p, t, info) # fds) = map field_name_of (p # ps)"
      using fds(2) by simp
    show "map exposed_name ((field_name_of p, t, info) # fds) = map parameter_name (p # ps)"
      using fds(3) key by (simp add: exposed_name_def)
  qed
qed

text \<open>For a function without receiver parameters, with all parameters annotated and none
  documented wrongly, whose docstring parses and whose type hints evaluate, converted
  on a base class without fields: when no field name has a leading underscore, pydantic
  creates the tool class with one field per parameter, in the order of the signature,
  each exposed under the parameter's name.  (Two parameters stored under the same
  field name, such as \<^verbatim>\<open>model_x\<close> and \<^verbatim>\<open>aliased_model_x\<close>, would share one field.)\<close>

lemma plain_function_keeps_order:
  assumes "truthy (callable_doc fn)"
    and "parse (the (callable_doc fn)) = Inr docstring"
    and "get_type_hints fn = Inr hints"
    and "\<forall>p \<in> set (callable_parameters fn).
           \<not> is_receiver p \<and> parameter_annotation p \<noteq> None \<and> hints (parameter_name p) \<noteq> None"
    and "\<forall>i < length (callable_parameters fn).
           \<not> documented_wrongly docstring i (callable_parameters fn ! i)"
    and "distinct (map field_name_of (callable_parameters fn))"
    and "\<forall>p \<in> set (callable_parameters fn). \<not> startswith (field_name_of p) ''_''"
    and "class_fields base = []"
  shows "\<exists>cls. convert_function_to_tool parse get_type_hints pydantic_create_model fn base = Inr cls \<and>
           map fst (class_fields cls) = map field_name_of (callable_parameters fn) \<and>
           map exposed_name (class_fields cls) = map parameter_name (callable_parameters fn)"
proof -
  let ?ps = "callable_parameters fn"
  have b: "\<forall>j < length ?ps. \<not> documented_wrongly docstring (0 + j) (?ps ! j)"
    using assms(5) by simp
  have c: "distinct (map fst ([] :: (annotation \<times> FieldInfo) py_dict) @ map field_name_of ?ps)"
    using assms(6) by simp
  from collect_field_definitions_order [OF assms(4) b c] obtain fds where
    fds: "collect_field_definitions docstring hints (enumerate 0 ?ps) [] = Inr fds"
      "map fst fds = map field_name_of ?ps" "map exposed_name fds = map parameter_name ?ps"
    by auto
  have "distinct (map fst ([] @ fds))" using fds(2) assms(6) by simp
  then have fold: "fold (\<lambda>(k, v). AList.update k v) fds [] = fds"
    using fold_update_fresh [of "[]" fds] by simp
  have "filter (\<lambda>k. startswith k ''_'') (map field_name_of ?ps) = []"
    using assms(7) by (simp add: filter_empty_conv)
  then have accepted: "filter (\<lambda>k. startswith k ''_'') (map fst fds) = []"
    using fds(2) by simp
  show ?thesis
    using fds fold accepted
    by (simp add: convert_function_to_tool_after_hints
            [of fn parse docstring get_type_hints hints, OF assms(1) assms(2) assms(3)]
          pydantic_create_model_def tool_fn_def assms(8))
qed

subsection \<open>Receiver parameters, refused names and unresolved annotations\<close>

text \<open>A method with one documented parameter converts, but the parameter's index is
  past the docstring's only entry, so the field gets no description.\<close>

lemma receiver_drops_description:
  "map (\<lambda>(n, t, info). (n, field_description info))
     (class_fields (projr (convert_function_to_tool parse_negate_method
        (typing_get_type_hints python_types) pydantic_create_model negate_method base_tool))) =
     [(''a'', None)]"
  by (simp add: example_defs convert_defs)

text \<open>A parameter with a leading underscore is refused by pydantic, after the loop; an
  annotation that names nothing is refused by \<^verbatim>\<open>get_type_hints\<close>, before the loop.  Both
  functions are documented rightly, and neither error is one about the documentation.\<close>

lemma refused_by_the_libraries:
  "convert_function_to_tool parse_hidden (typing_get_type_hints python_types)
     pydantic_create_model hidden_function base_tool = Inl (NameError ''_a'')
   \<and> convert_function_to_tool parse_forward (typing_get_type_hints python_types)
       pydantic_create_model forward_function base_tool = Inl (NameError ''Undefined'')"
  by (simp add: example_defs convert_defs)

subsection \<open>What \<^verbatim>\<open>tool_schema\<close> keeps and what it strips\<close>

text \<open>The emitted properties are the model's properties without \<^verbatim>\<open>tool_call\<close>, in
  order and with their schemas unchanged; the emitted definitions are the model's
  definitions without the keys \<^verbatim>\<open>ChatCompletionMessageToolCall\<close> and \<^verbatim>\<open>Function\<close>.\<close>

lemma copy_of_dict: "[(k, v). (k, v) \<leftarrow> prop_schema] = prop_schema"
  by (induction prop_schema) auto

lemma properties_without_tool_call:
  "[(prop, [(k, v). (k, v) \<leftarrow> prop_schema]). (prop, prop_schema) \<leftarrow> ps, prop \<noteq> ''tool_call''] =
   filter (\<lambda>(prop, prop_schema). prop \<noteq> ''tool_call'') ps"
  by (induction ps) (auto simp: copy_of_dict)

lemma tool_schema_keeps_declared_fields:
  assumes "BaseTool_tool_schema model_schema = Inr fn"
    and "function_parameters fn = Some parameters"
  shows "parameters_properties parameters =
           filter (\<lambda>(prop, prop_schema). prop \<noteq> ''tool_call'') (schema_properties model_schema)"
  using assms properties_without_tool_call [of "schema_properties model_schema"]
  by (auto simp: BaseTool_tool_schema_def split: option.splits if_splits)

lemma definitions_without_literal_keys:
  "[(k, v). (k, v) \<leftarrow> defs, k \<noteq> ''ChatCompletionMessageToolCall'' \<and> k \<noteq> ''Function''] =
   filter (\<lambda>(k, v). k \<noteq> ''ChatCompletionMessageToolCall'' \<and> k \<noteq> ''Function'') defs"
  by (induction defs) auto

lemma tool_schema_filters_definitions_by_key:
  assumes "BaseTool_tool_schema model_schema = Inr fn"
    and "function_parameters fn = Some parameters"
  shows "parameters_defs parameters =
           filter (\<lambda>(k, v). k \<noteq> ''ChatCompletionMessageToolCall'' \<and> k \<noteq> ''Function'')
             (case schema_defs model_schema of Some defs \<Rightarrow> defs | None \<Rightarrow> [])"
  using assms
  by (auto simp: BaseTool_tool_schema_def definitions_without_literal_keys
      split: option.splits if_splits)

text \<open>So \<^verbatim>\<open>tool_call\<close> is never among the emitted properties nor in the required list,
  and the two literal keys are never among the emitted definitions.\<close>

lemma tool_schema_strips_bookkeeping:
  assumes "BaseTool_tool_schema model_schema = Inr fn"
    and "function_parameters fn = Some parameters"
  shows "''tool_call'' \<notin> fst ` set (parameters_properties parameters)
       \<and> ''tool_call'' \<notin> set (parameters_required parameters)
       \<and> ''ChatCompletionMessageToolCall'' \<notin> fst ` set (parameters_defs parameters)
       \<and> ''Function'' \<notin> fst ` set (parameters_defs parameters)"
  using assms
  by (auto simp: BaseTool_tool_schema_def split: option.splits if_splits)

lemma tool_schema_strips_bookkeeping_example:
  "BaseTool_tool_schema format_book_schema = Inr format_book_function
   \<and> function_parameters format_book_function = Some format_book_parameters"
  by (simp add: BaseTool_tool_schema_def format_book_schema_def format_book_function_def
        format_book_parameters_def)

subsection \<open>The keys of \<^verbatim>\<open>args\<close>\<close>

text \<open>For every tool, \<^verbatim>\<open>args\<close> is keyed by the names of the tool's fields, whatever
  aliases the fields carry.\<close>

lemma args_keys_are_field_names:
  "map fst (BaseTool_args self) =
     filter (\<lambda>k. k \<noteq> ''tool_call'') (map fst (instance_values self))"
proof -
  have "\<And>vs :: py_value py_dict.
          map fst [(dump_key False (instance_class self) k, v). (k, v) \<leftarrow> vs, k \<notin> set [''tool_call'']] =
          filter (\<lambda>k. k \<noteq> ''tool_call'') (map fst vs)"
  proof -
    fix vs :: "py_value py_dict"
    show "map fst [(dump_key False (instance_class self) k, v). (k, v) \<leftarrow> vs, k \<notin> set [''tool_call'']] =
          filter (\<lambda>k. k \<noteq> ''tool_call'') (map fst vs)"
      by (induction vs) (auto simp: dump_key_def)
  qed
  then show ?thesis by (simp add: BaseTool_args_def model_dump_def)
qed

subsection \<open>The claims about \<^verbatim>\<open>convert_function_to_tool\<close> and \<^verbatim>\<open>tool_schema\<close>\<close>

text \<open>
  C3.  The claim: for a function with a well-formed docstring whose parameters are all
  annotated and all documented, the schema lists the parameters in the order of the
  signature without the receiver, for plain functions and for methods alike.  The
  code at a method: for \<^verbatim>\<open>def add(self, a: int, b: int)\<close> with \<^verbatim>\<open>a\<close> and \<^verbatim>\<open>b\<close>
  documented in this order, the loop skips \<^verbatim>\<open>self\<close> but its index has counted it, so
  \<^verbatim>\<open>a\<close> is compared with the docstring's second entry \<^verbatim>\<open>b\<close> and the conversion raises;
  the same function without the receiver converts, with the fields \<^verbatim>\<open>a\<close>, \<^verbatim>\<open>b\<close> in
  order.
\<close>

theorem receiver_shifts_documentation:
  "convert_function_to_tool parse_add (typing_get_type_hints python_types) pydantic_create_model
     add_method base_tool =
     Inl (ValueError ''Function parameter name a does not match docstring parameter name b. Make sure that the parameter names match exactly.'')
   \<and> map fst (class_fields (projr (convert_function_to_tool parse_add
        (typing_get_type_hints python_types) pydantic_create_model add_function base_tool))) =
       [''a'', ''b'']"
  by (simp add: example_defs convert_defs)

text \<open>
  C4 (as amended).  For a function with a docstring that parses, without receiver
  parameters, with every parameter annotated and with type hints that evaluate: the
  conversion fails with one of the two errors about the documentation if and only if,
  at some position of the signature for which the docstring has an entry, that entry's
  name differs from the parameter's name or its description is empty or missing.
  Entries of the docstring beyond the last parameter of the signature are not looked
  at.  When no position is documented wrongly, the conversion returns what
  \<^verbatim>\<open>create_model\<close> returns for the collected fields, which may still be an error of
  pydantic's own.  The hypotheses on the two library functions say what holds of them:
  the type hints have an entry for every parameter, and \<^verbatim>\<open>create_model\<close> does not raise
  the errors about the documentation.
\<close>

theorem documentation_errors_at_signature_positions:
  assumes "truthy (callable_doc fn)"
    and "parse (the (callable_doc fn)) = Inr docstring"
    and "\<forall>p \<in> set (callable_parameters fn). \<not> is_receiver p \<and> parameter_annotation p \<noteq> None"
    and "get_type_hints fn = Inr hints"
    and "\<forall>p \<in> set (callable_parameters fn). hints (parameter_name p) \<noteq> None"
    and "\<forall>n b d f e. create_model n b d f = Inl e \<longrightarrow> \<not> is_documentation_error e"
  shows "(\<exists>e. convert_function_to_tool parse get_type_hints create_model fn base = Inl e \<and>
              is_documentation_error e) =
           (\<exists>i < length (callable_parameters fn).
              documented_wrongly docstring i (callable_parameters fn ! i))
         \<and> ((\<forall>i < length (callable_parameters fn).
                \<not> documented_wrongly docstring i (callable_parameters fn ! i)) \<longrightarrow>
              (\<exists>field_definitions.
                 collect_field_definitions docstring hints
                   (enumerate 0 (callable_parameters fn)) [] = Inr field_definitions \<and>
                 convert_function_to_tool parse get_type_hints create_model fn base =
                   create_model
                     (concat (map str_title (str_split (callable_name fn) CHR ''_'')))
                     (tool_fn fn base) (tool_doc docstring) field_definitions))"
proof -
  let ?ps = "callable_parameters fn"
  let ?loop = "collect_field_definitions docstring hints (enumerate 0 ?ps) []"
  let ?result = "convert_function_to_tool parse get_type_hints create_model fn base"
  let ?wrong = "\<exists>i < length ?ps. documented_wrongly docstring i (?ps ! i)"
  have hints: "\<forall>p \<in> set ?ps. parameter_annotation p \<noteq> None \<longrightarrow> hints (parameter_name p) \<noteq> None"
    using assms(5) by blast
  have ann: "\<And>j. j < length ?ps \<Longrightarrow> is_receiver (?ps ! j) = False"
    "\<And>j. j < length ?ps \<Longrightarrow> (parameter_annotation (?ps ! j) = None) = False"
    using assms(3) nth_mem by blast+
  have "isl ?loop = (\<exists>j < length ?ps. \<not> is_receiver (?ps ! j) \<and>
              (parameter_annotation (?ps ! j) = None \<or>
               documented_wrongly docstring (0 + j) (?ps ! j)))"
    using hints by (rule collect_field_definitions_isl)
  also have "\<dots> = ?wrong"
    by (simp add: ann cong: conj_cong)
  finally have loop_fails: "isl ?loop = ?wrong" .
  have loop_error: "\<And>e. ?loop = Inl e \<Longrightarrow> is_documentation_error e"
    using assms(3) assms(5) by (intro collect_field_definitions_error [of _ _ 0 ?ps "[]"]) auto
  note result =
    convert_function_to_tool_after_hints
      [of fn parse docstring get_type_hints hints create_model base,
       OF assms(1) assms(2) assms(4)]
  show ?thesis
  proof (cases ?loop)
    case (Inl e)
    then have "?result = Inl e" by (simp add: result)
    moreover have "is_documentation_error e" using Inl loop_error by blast
    moreover have ?wrong using Inl loop_fails by simp
    ultimately show ?thesis by blast
  next
    case (Inr field_definitions)
    then have created: "?result =
        create_model (concat (map str_title (str_split (callable_name fn) CHR ''_'')))
          (tool_fn fn base) (tool_doc docstring) field_definitions"
      by (simp add: result)
    have none: "\<not> ?wrong" using Inr loop_fails by simp
    have "\<not> (\<exists>e. ?result = Inl e \<and> is_documentation_error e)"
      using created assms(6) by metis
    with none created Inr show ?thesis by blast
  qed
qed

text \<open>The theorem at \<^verbatim>\<open>def add(a: int, b: int)\<close> whose docstring calls the second
  parameter \<^verbatim>\<open>c\<close>, with the type hints evaluated in the namespace of the built-in types
  and the class created by pydantic: the conversion fails with the error about the
  name.\<close>

theorem documentation_errors_at_signature_positions_witness:
  "documented_wrongly (projr (parse_add_renamed (the (callable_doc add_function)))) 1
     (callable_parameters add_function ! 1)
   \<and> isl (convert_function_to_tool parse_add_renamed (typing_get_type_hints python_types)
            pydantic_create_model add_function base_tool)
   \<and> is_documentation_error
       (projl (convert_function_to_tool parse_add_renamed (typing_get_type_hints python_types)
                 pydantic_create_model add_function base_tool))"
proof -
  let ?docstring = "projr (parse_add_renamed (the (callable_doc add_function)))"
  let ?hints = "projr (typing_get_type_hints python_types add_function)"
  let ?result = "convert_function_to_tool parse_add_renamed (typing_get_type_hints python_types)
                   pydantic_create_model add_function base_tool"
  have doc: "truthy (callable_doc add_function)"
    by (simp add: add_function_def)
  have parsed: "parse_add_renamed (the (callable_doc add_function)) = Inr ?docstring"
    by (simp add: parse_add_renamed_def parsed_def)
  have plain: "\<forall>p \<in> set (callable_parameters add_function).
                 \<not> is_receiver p \<and> parameter_annotation p \<noteq> None"
    by (simp add: add_function_def int_parameter_def annotated_parameter_def is_receiver_def)
  have evaluated: "typing_get_type_hints python_types add_function = Inr ?hints"
    by (simp add: example_defs typing_get_type_hints_def callable_annotations_def)
  have covered: "\<forall>p \<in> set (callable_parameters add_function). ?hints (parameter_name p) \<noteq> None"
    using typing_get_type_hints_annotated [OF evaluated] plain by blast
  have pydantic: "\<forall>n b d f e. pydantic_create_model n b d f = Inl e \<longrightarrow> \<not> is_documentation_error e"
    by (auto simp: pydantic_create_model_def is_documentation_error_def split: list.splits)
  have wrong: "documented_wrongly ?docstring 1 (callable_parameters add_function ! 1)"
    by (simp add: documented_wrongly_def example_defs)
  have "(1::nat) < length (callable_parameters add_function)"
    by (simp add: add_function_def)
  with wrong have some: "\<exists>i < length (callable_parameters add_function).
      documented_wrongly ?docstring i (callable_parameters add_function ! i)"
    by blast
  note characterised =
    documentation_errors_at_signature_positions
      [of add_function parse_add_renamed ?docstring "typing_get_type_hints python_types"
          ?hints pydantic_create_model base_tool,
       OF doc parsed plain evaluated covered pydantic]
  from characterised some
  obtain e where e: "?result = Inl e" "is_documentation_error e"
    by blast
  with wrong show ?thesis by simp
qed

text \<open>The claim as it was stated fails at \<^verbatim>\<open>def negate(a: int)\<close> whose docstring
  documents \<^verbatim>\<open>a\<close> and then an entry \<^verbatim>\<open>b\<close> with an empty description: a documented
  parameter lacks its description, and the conversion succeeds.\<close>

theorem undescribed_extra_entry_accepted:
  "\<not> isl (convert_function_to_tool parse_negate (typing_get_type_hints python_types)
            pydantic_create_model negate_function base_tool) \<and>
   \<not> truthy (docstring_param_description
       (docstring_params (projr (parse_negate (the (callable_doc negate_function)))) ! 1))"
  by (simp add: example_defs convert_defs)

text \<open>
  C5.  A function without a docstring (\<^verbatim>\<open>__doc__\<close> null or empty) makes
  \<^verbatim>\<open>convert_function_to_tool\<close> raise, whatever the parser, the type hints, the class
  factory, the parameters and the base class are; and a tool class whose JSON schema
  has no description makes \<^verbatim>\<open>tool_schema\<close> raise.  Both are the first check of their
  function, and neither function calls a provider.
\<close>

theorem missing_docstring_is_an_error:
  "(\<not> truthy (callable_doc fn) \<longrightarrow>
      convert_function_to_tool parse get_type_hints create_model fn base =
        Inl (ValueError ''Function must have a docstring.''))
   \<and> (schema_description model_schema = None \<longrightarrow>
      BaseTool_tool_schema model_schema = Inl (ValueError ''Tool must have a docstring description.''))"
  by (simp add: convert_function_to_tool_def BaseTool_tool_schema_def)

theorem missing_docstring_is_an_error_witness:
  "convert_function_to_tool parse_add (typing_get_type_hints python_types) pydantic_create_model
     undocumented_function provider_tool =
     Inl (ValueError ''Function must have a docstring.'')
   \<and> BaseTool_tool_schema undocumented_schema =
     Inl (ValueError ''Tool must have a docstring description.'')"
  using missing_docstring_is_an_error
          [of undocumented_function parse_add "typing_get_type_hints python_types"
              pydantic_create_model provider_tool undocumented_schema]
  by (simp add: undocumented_function_def undocumented_schema_def)

text \<open>
  C6.  The claim: for a parameter whose name starts with \<^verbatim>\<open>model_\<close> the schema keeps
  the original name, the internal field is renamed, a tool call that supplies the
  argument under the original name fills the renamed field, and serializing the tool's
  arguments yields the original name again.  The code at \<^verbatim>\<open>def load(model_x: int)\<close> and
  the call \<^verbatim>\<open>{"model_x": 3}\<close>: the call resolves, and \<^verbatim>\<open>args\<close> is keyed by the internal
  name \<^verbatim>\<open>aliased_model_x\<close>, because \<^verbatim>\<open>args\<close> dumps the model without \<^verbatim>\<open>by_alias\<close>; a
  dump by alias of the same tool gives the original name.
\<close>

theorem args_keyed_by_internal_name:
  "resolve_and_serialize parse_load (typing_get_type_hints python_types) pydantic_create_model
     load_function provider_tool load_call =
     Inr [(''aliased_model_x'', PyInt 3)]
   \<and> map_sum id (model_dump True [''tool_call''])
       (from_tool_call
          (projr (convert_function_to_tool parse_load (typing_get_type_hints python_types)
                    pydantic_create_model load_function provider_tool))
          load_call) =
     Inr [(''model_x'', PyInt 3)]"
  by (simp add: resolve_and_serialize_def from_tool_call_def model_validate_def BaseTool_args_def
      model_dump_def dump_key_def validation_key_def example_defs convert_defs)

text \<open>
  C7.  The claim: the emitted schema never holds \<^verbatim>\<open>tool_call\<close> among its properties or
  in its required list, and its \<^verbatim>\<open>$defs\<close> exclude the definitions of the internal tool
  call, for every tool whatever fields the user declared.  The code strips
  \<^verbatim>\<open>tool_call\<close> always, but it strips the definitions by the two keys
  \<^verbatim>\<open>ChatCompletionMessageToolCall\<close> and \<^verbatim>\<open>Function\<close>.  At the tool \<^verbatim>\<open>CallBack\<close>, whose
  field has a user-declared type that is also named \<^verbatim>\<open>Function\<close>, pydantic keys the
  function of the tool call by its module-qualified name: the definition of the tool
  call is stripped, and the definition of its function is emitted.
\<close>

theorem internal_definition_survives:
  "map fst (parameters_properties
      (the (function_parameters (projr (BaseTool_tool_schema callback_schema))))) = [''callback'']
   \<and> map fst (parameters_defs
      (the (function_parameters (projr (BaseTool_tool_schema callback_schema))))) =
       [''__main____Function'',
        ''openai__types__chat__chat_completion_message_tool_call__Function'']
   \<and> map_of (parameters_defs
      (the (function_parameters (projr (BaseTool_tool_schema callback_schema)))))
       ''openai__types__chat__chat_completion_message_tool_call__Function'' =
       Some tool_call_function_definition"
  by (simp add: BaseTool_tool_schema_def callback_schema_def)

section \<open>Properties of the call response and the stream\<close>

subsection \<open>What a consumed stream has accumulated\<close>

lemma last_given_Nil: "last_given [] = None"
  by (simp add: last_given_def)

lemma last_given_Cons:
  "last_given (x # xs) = (case last_given xs of None \<Rightarrow> x | Some v \<Rightarrow> Some v)"
  by (cases x) (auto simp: last_given_def split: list.splits)

lemma latest_last_given:
  "(case last_given (x # xs) of None \<Rightarrow> seen | Some v \<Rightarrow> Some v) =
   (case last_given xs of None \<Rightarrow> latest seen x | Some v \<Rightarrow> Some v)"
  by (simp add: last_given_Cons latest_def split: option.splits)

lemma latest_last_given_model:
  "(case last_given (x # xs) of None \<Rightarrow> seen | Some m \<Rightarrow> m) =
   (case last_given xs of None \<Rightarrow> (case x of None \<Rightarrow> seen | Some m \<Rightarrow> m) | Some m \<Rightarrow> m)"
  by (simp add: last_given_Cons split: option.splits)

lemma case_option_same: "(case x of None \<Rightarrow> None | Some v \<Rightarrow> Some v) = x"
  by (cases x) simp_all

lemma consume_Nil:
  "stream_source self = [] \<Longrightarrow>
   consume self =
     self\<lparr> stream_state := Exhausted,
           stream_message_param :=
             Some (construct_message_param (stream_tool_calls self) (stream_content self)) \<rparr>"
  by (subst consume.simps) (simp add: stream_next_def)

lemma consume_Cons:
  "stream_source self = (chunk, tool) # rest \<Longrightarrow>
   consume self =
     consume ((update_properties self chunk tool)\<lparr> stream_source := rest, stream_state := Consuming \<rparr>)"
  by (subst consume.simps) (simp add: stream_next_def)

text \<open>The state after the iteration, from any state of the stream: each accumulator
  holds what it held, extended by what the remaining pairs carry.\<close>

lemma consume_accumulates:
  "stream_source self = pairs \<Longrightarrow>
   stream_provider (consume self) = stream_provider self \<and>
   stream_state (consume self) = Exhausted \<and>
   stream_content (consume self) = stream_content self @ concat (map (chunk_content \<circ> fst) pairs) \<and>
   stream_usage (consume self) =
     (case last_given (map (chunk_usage \<circ> fst) pairs) of None \<Rightarrow> stream_usage self | Some v \<Rightarrow> Some v) \<and>
   stream_id (consume self) =
     (case last_given (map (chunk_id \<circ> fst) pairs) of None \<Rightarrow> stream_id self | Some v \<Rightarrow> Some v) \<and>
   stream_finish_reasons (consume self) =
     (case last_given (map (chunk_finish_reasons \<circ> fst) pairs) of
        None \<Rightarrow> stream_finish_reasons self | Some v \<Rightarrow> Some v) \<and>
   stream_model (consume self) =
     (case last_given (map (chunk_model \<circ> fst) pairs) of None \<Rightarrow> stream_model self | Some m \<Rightarrow> m) \<and>
   stream_tool_calls (consume self) =
     stream_tool_calls self @ List.map_filter (map_option instance_tool_call \<circ> snd) pairs \<and>
   stream_message_param (consume self) =
     Some (construct_message_param
            (stream_tool_calls self @ List.map_filter (map_option instance_tool_call \<circ> snd) pairs)
            (stream_content self @ concat (map (chunk_content \<circ> fst) pairs)))"
proof (induction pairs arbitrary: self)
  case Nil
  then show ?case by (simp add: consume_Nil last_given_Nil)
next
  case (Cons pair pairs)
  obtain chunk tool where pair: "pair = (chunk, tool)" by (cases pair)
  define pulled where
    "pulled = (update_properties self chunk tool)\<lparr> stream_source := pairs, stream_state := Consuming \<rparr>"
  have step: "consume self = consume pulled"
    using Cons.prems pair by (simp add: consume_Cons pulled_def)
  have src: "stream_source pulled = pairs" by (simp add: pulled_def)
  have fields:
    "stream_provider pulled = stream_provider self"
    "stream_content pulled = stream_content self @ chunk_content chunk"
    "stream_usage pulled = latest (stream_usage self) (chunk_usage chunk)"
    "stream_id pulled = latest (stream_id self) (chunk_id chunk)"
    "stream_finish_reasons pulled = latest (stream_finish_reasons self) (chunk_finish_reasons chunk)"
    "stream_model pulled = (case chunk_model chunk of None \<Rightarrow> stream_model self | Some m \<Rightarrow> m)"
    "stream_tool_calls pulled =
       stream_tool_calls self @ List.map_filter (map_option instance_tool_call \<circ> snd) [pair]"
    by (cases tool; simp add: pulled_def update_properties_def pair)+
  have calls: "List.map_filter (map_option instance_tool_call \<circ> snd) (pair # pairs) =
                 List.map_filter (map_option instance_tool_call \<circ> snd) [pair] @
                 List.map_filter (map_option instance_tool_call \<circ> snd) pairs"
    by (simp split: option.splits)
  show ?case
    unfolding step calls
    using Cons.IH [OF src]
    by (simp only: fields latest_last_given latest_last_given_model list.map comp_apply pair fst_conv
          concat.simps append_assoc)
       (simp add: comp_def)
qed

lemma new_stream_fields:
  "stream_provider (new_stream provider model_name pairs) = provider"
  "stream_source (new_stream provider model_name pairs) = pairs"
  "stream_state (new_stream provider model_name pairs) = NotStarted"
  "stream_model (new_stream provider model_name pairs) = model_name"
  "stream_content (new_stream provider model_name pairs) = []"
  "stream_id (new_stream provider model_name pairs) = None"
  "stream_finish_reasons (new_stream provider model_name pairs) = None"
  "stream_usage (new_stream provider model_name pairs) = None"
  "stream_tool_calls (new_stream provider model_name pairs) = []"
  "stream_message_param (new_stream provider model_name pairs) = None"
  by (simp_all add: new_stream_def)

lemma consume_new_stream:
  "stream_provider (consume (new_stream provider model_name pairs)) = provider"
  "stream_state (consume (new_stream provider model_name pairs)) = Exhausted"
  "stream_content (consume (new_stream provider model_name pairs)) =
     concat (map (chunk_content \<circ> fst) pairs)"
  "stream_usage (consume (new_stream provider model_name pairs)) =
     last_given (map (chunk_usage \<circ> fst) pairs)"
  "stream_id (consume (new_stream provider model_name pairs)) =
     last_given (map (chunk_id \<circ> fst) pairs)"
  "stream_finish_reasons (consume (new_stream provider model_name pairs)) =
     last_given (map (chunk_finish_reasons \<circ> fst) pairs)"
  "stream_model (consume (new_stream provider model_name pairs)) =
     (case last_given (map (chunk_model \<circ> fst) pairs) of None \<Rightarrow> model_name | Some m \<Rightarrow> m)"
  "stream_tool_calls (consume (new_stream provider model_name pairs)) =
     List.map_filter (map_option instance_tool_call \<circ> snd) pairs"
  "stream_message_param (consume (new_stream provider model_name pairs)) =
     Some (construct_message_param
            (List.map_filter (map_option instance_tool_call \<circ> snd) pairs)
            (concat (map (chunk_content \<circ> fst) pairs)))"
  using consume_accumulates [of "new_stream provider model_name pairs" pairs]
  by (simp_all add: new_stream_fields case_option_same cong: option.case_cong)

subsection \<open>The claims about the stream and the cost\<close>

text \<open>
  C2.  For every stream: before any chunk has been pulled the cost and the message
  parameter are null; after the chunks are exhausted the cost is the price-table cost
  of the accumulated usage (the last usage that a chunk carried) and the message
  parameter is the assistant-turn message built from the accumulated content and tool
  calls.
\<close>

theorem stream_attributes_defined_at_exhaustion:
  "Stream_cost prices (new_stream provider model_name pairs) = Inr None
   \<and> Stream_message_param (new_stream provider model_name pairs) = None
   \<and> Stream_cost prices (consume (new_stream provider model_name pairs)) =
       calculate_cost prices provider
         (map_option counts_input_tokens (last_given (map (chunk_usage \<circ> fst) pairs)))
         (map_option counts_output_tokens (last_given (map (chunk_usage \<circ> fst) pairs)))
         (case last_given (map (chunk_model \<circ> fst) pairs) of None \<Rightarrow> model_name | Some m \<Rightarrow> m)
   \<and> Stream_message_param (consume (new_stream provider model_name pairs)) =
       Some (construct_message_param
              (List.map_filter (map_option instance_tool_call \<circ> snd) pairs)
              (concat (map (chunk_content \<circ> fst) pairs)))"
  by (simp add: Stream_cost_def Stream_message_param_def new_stream_fields consume_new_stream)

text \<open>
  C8.  For every response whose model has no entry in the price table, and for every
  response without usage data, the cost of the call response is null; and for every
  response the cost computation returns and does not raise.
\<close>

theorem cost_is_null_without_price_or_usage:
  "(prices (call_response_provider self, CallResponse_model self) = None \<longrightarrow>
      CallResponse_cost prices self = Inr None)
   \<and> (CallResponse_usage self = None \<longrightarrow> CallResponse_cost prices self = Inr None)
   \<and> (\<exists>cost. CallResponse_cost prices self = Inr cost)"
  by (auto simp: CallResponse_cost_def calculate_cost_def CallResponse_input_tokens_def
        CallResponse_output_tokens_def split: option.splits)

theorem cost_is_null_without_price_or_usage_witness:
  "CallResponse_cost test_prices response_of_unknown_model = Inr None
   \<and> CallResponse_cost test_prices response_without_usage = Inr None"
proof -
  have unknown: "test_prices (call_response_provider response_of_unknown_model,
                              CallResponse_model response_of_unknown_model) = None"
    by (simp add: test_prices_def response_of_unknown_model_def CallResponse_model_def)
  have absent: "CallResponse_usage response_without_usage = None"
    by (simp add: response_without_usage_def CallResponse_usage_def)
  show ?thesis
    using unknown absent
      cost_is_null_without_price_or_usage [of test_prices response_of_unknown_model]
      cost_is_null_without_price_or_usage [of test_prices response_without_usage]
    by blast
qed

subsection \<open>The tests and the scenario on the model\<close>

text \<open>\<^verbatim>\<open>test_cohere_stream\<close>: no cost before the iteration; afterwards the cost
  \<open>1.8e-5\<close> and the assistant message with the content and without tool calls.\<close>

lemma cohere_stream_test:
  "Stream_cost test_prices (new_stream ''cohere'' ''command-r-plus'' cohere_chunks) = Inr None
   \<and> Stream_cost test_prices (consume (new_stream ''cohere'' ''command-r-plus'' cohere_chunks)) =
       Inr (Some (18 / 1000000))
   \<and> Stream_message_param (consume (new_stream ''cohere'' ''command-r-plus'' cohere_chunks)) =
       Some \<lparr> message_role = ''assistant'', message_text = ''content'', message_tool_calls = None \<rparr>"
  by (simp add: Stream_cost_def Stream_message_param_def new_stream_fields consume_new_stream)
     (simp add: cohere_chunks_def text_chunk_def last_given_def calculate_cost_def test_prices_def
        construct_message_param_def)

text \<open>\<^verbatim>\<open>test_groq_stream\<close>: afterwards the cost \<open>1.38e-6\<close> and the assistant message with
  the content and the tool call.\<close>

lemma groq_stream_test:
  "Stream_cost test_prices (new_stream ''groq'' ''llama3-70b-8192'' groq_chunks) = Inr None
   \<and> Stream_cost test_prices (consume (new_stream ''groq'' ''llama3-70b-8192'' groq_chunks)) =
       Inr (Some (138 / 100000000))
   \<and> Stream_message_param (consume (new_stream ''groq'' ''llama3-70b-8192'' groq_chunks)) =
       Some \<lparr> message_role = ''assistant'', message_text = ''content'',
              message_tool_calls = Some [format_book_call] \<rparr>"
  by (simp add: Stream_cost_def Stream_message_param_def new_stream_fields consume_new_stream)
     (simp add: groq_chunks_def text_chunk_def last_given_def calculate_cost_def test_prices_def
        construct_message_param_def format_book_tool_def)

text \<open>The scenario of the spec: the content is the concatenation, the usage and the
  finish reason are those of the terminal chunk, and the cost is not null for a model
  with a price.\<close>

lemma spec_scenario:
  "stream_content (consume (new_stream ''groq'' ''llama3-70b-8192'' scenario_chunks)) =
     ''Sure, I recommend...''
   \<and> stream_usage (consume (new_stream ''groq'' ''llama3-70b-8192'' scenario_chunks)) =
       Some \<lparr> counts_input_tokens = 10, counts_output_tokens = 5 \<rparr>
   \<and> stream_finish_reasons (consume (new_stream ''groq'' ''llama3-70b-8192'' scenario_chunks)) =
       Some [''stop'']
   \<and> Stream_cost test_prices (consume (new_stream ''groq'' ''llama3-70b-8192'' scenario_chunks)) \<noteq>
       Inr None"
  by (simp add: Stream_cost_def consume_new_stream)
     (simp add: scenario_chunks_def text_chunk_def last_given_def calculate_cost_def test_prices_def)

end
